theory Spec2Isabelle
  imports Main
begin

section \<open>Data model\<close>

text \<open>
  The action result (\<^verbatim>\<open>HookResponse\<close> on the client) is a JavaScript object with the four
  optional properties \<^verbatim>\<open>data\<close>, \<^verbatim>\<open>validationError\<close>, \<^verbatim>\<open>serverError\<close>, \<^verbatim>\<open>fetchError\<close>.
  The code reads a property only through \<^verbatim>\<open>typeof r.p !== "undefined"\<close> or \<^verbatim>\<open>r.p\<close>, which cannot
  tell an absent property from one that holds \<^verbatim>\<open>undefined\<close>; both are \<open>None\<close> here.
  The flattened field errors are the entries of a JavaScript object: a list of keys with their
  message lists, each key once.
\<close>

type_synonym fieldErrors = "(string \<times> string list) list"

record ('d, 'e) HookResponse =
  data :: "'d option"
  validationError :: "fieldErrors option"
  serverError :: "string option"
  fetchError :: "'e option"

definition emptyResponse :: "('d, 'e) HookResponse" where
  "emptyResponse = \<lparr>data = None, validationError = None, serverError = None, fetchError = None\<rparr>"

text \<open>The number of variants a result has populated.\<close>

definition populated :: "('d, 'e) HookResponse \<Rightarrow> nat" where
  "populated r =
     (if data r \<noteq> None then 1 else 0) + (if validationError r \<noteq> None then 1 else 0) +
     (if serverError r \<noteq> None then 1 else 0) + (if fetchError r \<noteq> None then 1 else 0)"

subsection \<open>The schema library\<close>

text \<open>
  \<^verbatim>\<open>schema.safeParse(clientInput)\<close> returns a success with the parsed data, or a failure with
  an error object. The error lists issues, each with a path into the input and a message, and
  has the method \<^verbatim>\<open>flatten\<close>; as for the configured functions below, the method is given by the
  outcome of the one call \<^verbatim>\<open>error.flatten().fieldErrors\<close>: the value it throws (\<open>Inl\<close>) or the
  mapping it returns. Both calls are inside the \<^verbatim>\<open>try\<close> block, so a parse or a flattening that
  throws is a branch of the model too.
\<close>

record ZodIssue =
  issue_path :: "string list"
  issue_message :: string

record 'e ZodError =
  error_issues :: "ZodIssue list"
  error_flatten :: "'e + fieldErrors"

datatype ('e, 'p) SafeParseReturnType = SafeParseSuccess 'p | SafeParseError "'e ZodError"

text \<open>
  Modelled from the spec: \<^verbatim>\<open>ZodError.flatten().fieldErrors\<close> belongs to the schema library and
  is not among the source files. The spec (4.1, step 2) has the validation errors flattened into
  a mapping from field name to message list: every issue with a non-empty path adds its message
  to the list of the field its path starts with, in the order of the issues; an issue with an
  empty path concerns the whole input, not a field, and adds nothing.
\<close>

fun push_message :: "string \<Rightarrow> string \<Rightarrow> fieldErrors \<Rightarrow> fieldErrors" where
  "push_message k m [] = [(k, [m])]"
| "push_message k m ((k', ms) # rest) =
     (if k = k' then (k', ms @ [m]) # rest else (k', ms) # push_message k m rest)"

definition flatten_issue :: "fieldErrors \<Rightarrow> ZodIssue \<Rightarrow> fieldErrors" where
  "flatten_issue fe sub =
     (case issue_path sub of [] \<Rightarrow> fe | k # _ \<Rightarrow> push_message k (issue_message sub) fe)"

definition flatten_fieldErrors :: "ZodIssue list \<Rightarrow> fieldErrors" where
  "flatten_fieldErrors issues = foldl flatten_issue [] issues"

text \<open>The messages of the issues that concern field \<open>k\<close>, in order.\<close>

definition messages_of :: "ZodIssue list \<Rightarrow> string \<Rightarrow> string list" where
  "messages_of issues k =
     map issue_message (filter (\<lambda>i. issue_path i \<noteq> [] \<and> hd (issue_path i) = k) issues)"

definition invalid_fields :: "ZodIssue list \<Rightarrow> string set" where
  "invalid_fields issues = hd ` issue_path ` {i \<in> set issues. issue_path i \<noteq> []}"

text \<open>
  What the library's \<^verbatim>\<open>flatten\<close> does when it runs. It collects the mapping in an object that
  starts as \<^verbatim>\<open>{}\<close>, and for each issue with a non-empty path executes
  \<^verbatim>\<open>fieldErrors[k] = fieldErrors[k] || []; fieldErrors[k].push(message)\<close>, where \<open>k\<close> is the head of
  the path. The read \<^verbatim>\<open>fieldErrors[k]\<close> also finds what every object inherits from
  \<^verbatim>\<open>Object.prototype\<close>: for such a name it gives a function (for \<^verbatim>\<open>__proto__\<close> the prototype
  itself), that value is kept instead of a new list, it has no \<^verbatim>\<open>push\<close>, and the call throws a
  \<^verbatim>\<open>TypeError\<close>. \<open>typeError\<close> is the value thrown.
\<close>

definition objectPrototypeProperties :: "string list" where
  "objectPrototypeProperties =
     [''constructor'', ''__defineGetter__'', ''__defineSetter__'', ''hasOwnProperty'',
      ''__lookupGetter__'', ''__lookupSetter__'', ''isPrototypeOf'', ''propertyIsEnumerable'',
      ''toString'', ''valueOf'', ''__proto__'', ''toLocaleString'']"

fun zod_flatten :: "'e \<Rightarrow> fieldErrors \<Rightarrow> ZodIssue list \<Rightarrow> 'e + fieldErrors" where
  "zod_flatten typeError fe [] = Inr fe"
| "zod_flatten typeError fe (sub # rest) =
     (case issue_path sub of
        [] \<Rightarrow> zod_flatten typeError fe rest
      | k # _ \<Rightarrow>
          if k \<in> set objectPrototypeProperties then Inl typeError
          else zod_flatten typeError (push_message k (issue_message sub) fe) rest)"

text \<open>The error object that a failed parse with the given issues returns.\<close>

definition zodError :: "'e \<Rightarrow> ZodIssue list \<Rightarrow> 'e ZodError" where
  "zodError typeError issues =
     \<lparr>error_issues = issues, error_flatten = zod_flatten typeError [] issues\<rparr>"

subsection \<open>The helpers of \<^verbatim>\<open>./utils\<close>\<close>

text \<open>
  \<^verbatim>\<open>DEFAULT_SERVER_ERROR\<close>, \<^verbatim>\<open>isError\<close>, \<^verbatim>\<open>isNextNotFoundError\<close> and \<^verbatim>\<open>isNextRedirectError\<close> are
  imported from a module that is not among the source files; they are parameters of the model.
  \<open>'e\<close> is the type of the values that JavaScript code can throw.
\<close>

record 'e utils =
  DEFAULT_SERVER_ERROR :: string
  isError :: "'e \<Rightarrow> bool"
  isNextNotFoundError :: "'e \<Rightarrow> bool"
  isNextRedirectError :: "'e \<Rightarrow> bool"

definition isNavigationSignal :: "'e utils \<Rightarrow> 'e \<Rightarrow> bool" where
  "isNavigationSignal u e = (isNextRedirectError u e \<or> isNextNotFoundError u e)"

section \<open>The action builder\<close>

text \<open>
  The options of \<^verbatim>\<open>createSafeActionClient\<close>, each of them optional, as is the options object
  itself. A configured function is given by its outcome: \<open>Inl e\<close> when the call throws, or the
  promise it returns rejects, with \<open>e\<close>; \<open>Inr v\<close> when it resolves to \<open>v\<close>. \<^verbatim>\<open>buildContext\<close>
  takes no argument, so it is the outcome of its one call. \<^verbatim>\<open>handleReturnedServerError\<close>
  resolves to an object of the type \<^verbatim>\<open>{serverError: string}\<close>; an object of this type has a
  string in \<^verbatim>\<open>serverError\<close> and may have any other property, so it is a result object as a whole.
\<close>

record ('e, 'c, 'd) createOpts =
  buildContext :: "('e + 'c) option"
  handleReturnedServerError :: "('e \<Rightarrow> 'e + ('d, 'e) HookResponse) option"
  handleServerErrorLog :: "('e \<Rightarrow> 'e + unit) option"

text \<open>The context the handler receives: the built one, or the empty object \<^verbatim>\<open>{}\<close>.\<close>

datatype 'c executionContext = EmptyObject | Context 'c

text \<open>
  What an invocation does that can be observed from outside: the calls of the configured
  functions and of the handler, and the writes to the console.
  \<open>ConsoleErrorMessage e\<close> is \<^verbatim>\<open>console.error("Action error:", e.message)\<close>.
\<close>

datatype ('e, 'p, 'c) event =
    BuildContextCalled
  | ServerCodeCalled 'p "'c executionContext"
  | ConsoleWarn 'e
  | ConsoleErrorMessage 'e
  | HandleServerErrorLogCalled 'e
  | HandleReturnedServerErrorCalled 'e

text \<open>How the promise returned by the built action settles.\<close>

datatype ('e, 'r) settled = Fulfilled 'r | Rejected 'e

text \<open>
  \<^verbatim>\<open>createOpts?.handleServerErrorLog || (async (e) => { console.error(...) })\<close>:
  the events of the body of the chosen function, and its outcome.
\<close>

definition client_handleServerErrorLog ::
  "('e, 'c, 'd) createOpts option \<Rightarrow> 'e \<Rightarrow> ('e, 'p, 'c) event list \<times> ('e + unit)" where
  "client_handleServerErrorLog opts e =
     (case Option.bind opts handleServerErrorLog of
        Some f \<Rightarrow> ([], f e)
      | None \<Rightarrow> ([ConsoleErrorMessage e], Inr ()))"

text \<open>
  \<^verbatim>\<open>createOpts?.handleReturnedServerError || (async () => ({ serverError: DEFAULT_SERVER_ERROR }))\<close>
\<close>

definition client_handleReturnedServerError ::
  "'e utils \<Rightarrow> ('e, 'c, 'd) createOpts option \<Rightarrow> 'e \<Rightarrow> 'e + ('d, 'e) HookResponse" where
  "client_handleReturnedServerError u opts e =
     (case Option.bind opts handleReturnedServerError of
        Some f \<Rightarrow> f e
      | None \<Rightarrow> Inr (emptyResponse\<lparr>serverError := Some (DEFAULT_SERVER_ERROR u)\<rparr>))"

text \<open>
  \<^verbatim>\<open>(await createOpts?.buildContext?.()) ?? {}\<close>. \<^verbatim>\<open>buildContext\<close> resolves to a \<^verbatim>\<open>Context\<close>, which
  is an object type, so \<^verbatim>\<open>??\<close> takes the empty object exactly when \<^verbatim>\<open>buildContext\<close> (or the
  options object) is absent; then nothing is called.
\<close>

definition getContext ::
  "('e, 'c, 'd) createOpts option \<Rightarrow> ('e, 'p, 'c) event list \<times> ('e + 'c executionContext)" where
  "getContext opts =
     (case Option.bind opts buildContext of
        None \<Rightarrow> ([], Inr EmptyObject)
      | Some (Inl e) \<Rightarrow> ([BuildContextCalled], Inl e)
      | Some (Inr c) \<Rightarrow> ([BuildContextCalled], Inr (Context c)))"

text \<open>
  The \<^verbatim>\<open>try\<close> block of the built action: the events so far, and the value thrown (\<open>Inl\<close>) or
  returned (\<open>Inr\<close>). The handler \<^verbatim>\<open>serverCode\<close> returns a value of type \<^verbatim>\<open>Data\<close>, \<open>None\<close> when it
  is \<^verbatim>\<open>undefined\<close>.
\<close>

definition tryBlock ::
  "('e, 'c, 'd) createOpts option \<Rightarrow> ('raw \<Rightarrow> 'e + ('e, 'p) SafeParseReturnType) \<Rightarrow>
   ('p \<Rightarrow> 'c executionContext \<Rightarrow> 'e + 'd option) \<Rightarrow> 'raw \<Rightarrow>
   ('e, 'p, 'c) event list \<times> ('e + ('d, 'e) HookResponse)" where
  "tryBlock opts safeParse serverCode clientInput =
     (case safeParse clientInput of
        Inl e \<Rightarrow> ([], Inl e)
      | Inr (SafeParseError error) \<Rightarrow>
          (case error_flatten error of
             Inl e \<Rightarrow> ([], Inl e)
           | Inr fieldErrors \<Rightarrow> ([], Inr (emptyResponse\<lparr>validationError := Some fieldErrors\<rparr>)))
      | Inr (SafeParseSuccess parsed) \<Rightarrow>
          (case getContext opts of
             (evs, Inl e) \<Rightarrow> (evs, Inl e)
           | (evs, Inr ctx) \<Rightarrow>
               (case serverCode parsed ctx of
                  Inl e \<Rightarrow> (evs @ [ServerCodeCalled parsed ctx], Inl e)
                | Inr r \<Rightarrow> (evs @ [ServerCodeCalled parsed ctx], Inr (emptyResponse\<lparr>data := r\<rparr>)))))"

text \<open>The \<^verbatim>\<open>catch\<close> block, for the thrown value \<open>e\<close>.\<close>

definition catchBlock ::
  "'e utils \<Rightarrow> ('e, 'c, 'd) createOpts option \<Rightarrow> 'e \<Rightarrow>
   ('e, 'p, 'c) event list \<times> ('e, ('d, 'e) HookResponse) settled" where
  "catchBlock u opts e =
     (if isNextRedirectError u e \<or> isNextNotFoundError u e then ([], Rejected e)
      else if \<not> isError u e then
        ([ConsoleWarn e], Fulfilled (emptyResponse\<lparr>serverError := Some (DEFAULT_SERVER_ERROR u)\<rparr>))
      else
        (case client_handleServerErrorLog opts e of
           (evs, Inl e') \<Rightarrow> (HandleServerErrorLogCalled e # evs, Rejected e')
         | (evs, Inr _) \<Rightarrow>
             (HandleServerErrorLogCalled e # evs @ [HandleReturnedServerErrorCalled e],
              case client_handleReturnedServerError u opts e of
                Inl e' \<Rightarrow> Rejected e'
              | Inr r \<Rightarrow> Fulfilled r)))"

text \<open>
  The function that \<^verbatim>\<open>actionBuilder(schema, serverCode)\<close> returns, called with \<open>clientInput\<close>:
  the events of the invocation in order, and how its promise settles.
\<close>

definition safeAction ::
  "'e utils \<Rightarrow> ('e, 'c, 'd) createOpts option \<Rightarrow> ('raw \<Rightarrow> 'e + ('e, 'p) SafeParseReturnType) \<Rightarrow>
   ('p \<Rightarrow> 'c executionContext \<Rightarrow> 'e + 'd option) \<Rightarrow> 'raw \<Rightarrow>
   ('e, 'p, 'c) event list \<times> ('e, ('d, 'e) HookResponse) settled" where
  "safeAction u opts safeParse serverCode clientInput =
     (case tryBlock opts safeParse serverCode clientInput of
        (evs, Inr r) \<Rightarrow> (evs, Fulfilled r)
      | (evs, Inl e) \<Rightarrow>
          (case catchBlock u opts e of (evs', out) \<Rightarrow> (evs @ evs', out)))"

text \<open>Two classes of events: the calls of the handler, and what the two error hooks do.\<close>

fun isServerCodeCalled :: "('e, 'p, 'c) event \<Rightarrow> bool" where
  "isServerCodeCalled (ServerCodeCalled p c) = True"
| "isServerCodeCalled _ = False"

fun isHookEvent :: "('e, 'p, 'c) event \<Rightarrow> bool" where
  "isHookEvent (HandleServerErrorLogCalled e) = True"
| "isHookEvent (HandleReturnedServerErrorCalled e) = True"
| "isHookEvent (ConsoleErrorMessage e) = True"
| "isHookEvent _ = False"

section \<open>The hooks\<close>

datatype HookActionStatus = idle | executing | hasSucceded | hasErrored

definition getActionStatus :: "bool \<Rightarrow> ('d, 'e) HookResponse \<Rightarrow> HookActionStatus" where
  "getActionStatus isExecuting resp =
     (if isExecuting then executing
      else if data resp \<noteq> None then hasSucceded
      else if validationError resp \<noteq> None \<or> serverError resp \<noteq> None \<or> fetchError resp \<noteq> None
        then hasErrored
      else idle)"

subsection \<open>\<^verbatim>\<open>useActionCallbacks\<close>\<close>

text \<open>
  \<^verbatim>\<open>useActionCallbacks\<close> is called once per render of the component. Between renders React keeps,
  for this call site, the two ref objects made by \<^verbatim>\<open>useRef\<close> and the dependency array of the
  last \<^verbatim>\<open>useEffect\<close>. \<^verbatim>\<open>useRef(v)\<close> uses \<open>v\<close> on the first render only and returns the same
  ref object afterwards; the code never assigns to \<^verbatim>\<open>.current\<close>. The effect runs after the first
  render, and after a later render when a dependency differs (by \<^verbatim>\<open>Object.is\<close>) from its value at
  the previous render.

  Functions and objects are compared by identity: a callback is given by a name \<open>'f\<close>, \<^verbatim>\<open>reset\<close>
  by a number, and a response object by a pair of its identity and its contents.
\<close>

record 'f HookCallbacks =
  onSuccess :: "'f option"
  onError :: "'f option"

type_synonym ('d, 'e) responseObject = "nat \<times> ('d, 'e) HookResponse"

record 'f callbackMemory =
  onSuccessRef :: "'f option"
  onErrorRef :: "'f option"
  lastDeps :: "HookActionStatus \<times> nat \<times> nat"

text \<open>A call of a user callback, with its arguments: the data or the response, the input, \<^verbatim>\<open>reset\<close>.\<close>

datatype ('f, 'd, 'e, 'i) callbackCall =
    OnSuccessCalled 'f "'d option" "'i option" nat
  | OnErrorCalled 'f "('d, 'e) HookResponse" "'i option" nat

text \<open>The arguments of one call of \<^verbatim>\<open>useActionCallbacks(response, input, status, reset, cb)\<close>.\<close>

record ('f, 'd, 'e, 'i) callbackArgs =
  arg_response :: "('d, 'e) responseObject"
  arg_input :: "'i option"
  arg_status :: HookActionStatus
  arg_reset :: nat
  arg_cb :: "'f HookCallbacks option"

text \<open>The body of the effect, with the two callbacks read from the refs.\<close>

definition callbackEffect ::
  "'f option \<Rightarrow> 'f option \<Rightarrow> ('f, 'd, 'e, 'i) callbackArgs \<Rightarrow> ('f, 'd, 'e, 'i) callbackCall list" where
  "callbackEffect onSuccess' onError' a =
     (case (if arg_status a = hasSucceded then onSuccess' else None) of
        Some f \<Rightarrow> [OnSuccessCalled f (data (snd (arg_response a))) (arg_input a) (arg_reset a)]
      | None \<Rightarrow>
          (case (if arg_status a = hasErrored then onError' else None) of
             Some g \<Rightarrow> [OnErrorCalled g (snd (arg_response a)) (arg_input a) (arg_reset a)]
           | None \<Rightarrow> []))"

definition depsOf :: "('f, 'd, 'e, 'i) callbackArgs \<Rightarrow> HookActionStatus \<times> nat \<times> nat" where
  "depsOf a = (arg_status a, fst (arg_response a), arg_reset a)"

text \<open>
  One render: \<open>prev\<close> is what React kept from the previous render (\<open>None\<close> on the first one);
  the result is what it keeps now, and the callbacks the effect of this render calls.
\<close>

definition useActionCallbacks ::
  "'f callbackMemory option \<Rightarrow> ('f, 'd, 'e, 'i) callbackArgs \<Rightarrow>
   'f callbackMemory \<times> ('f, 'd, 'e, 'i) callbackCall list" where
  "useActionCallbacks prev a =
     (case prev of
        None \<Rightarrow>
          (let onSuccessRef' = Option.bind (arg_cb a) onSuccess;
               onErrorRef' = Option.bind (arg_cb a) onError
           in (\<lparr>onSuccessRef = onSuccessRef', onErrorRef = onErrorRef', lastDeps = depsOf a\<rparr>,
               callbackEffect onSuccessRef' onErrorRef' a))
      | Some m \<Rightarrow>
          (m\<lparr>lastDeps := depsOf a\<rparr>,
           if lastDeps m \<noteq> depsOf a then callbackEffect (onSuccessRef m) (onErrorRef m) a else []))"

text \<open>A sequence of renders of one component instance: the callbacks called after each.\<close>

fun renders ::
  "'f callbackMemory option \<Rightarrow> ('f, 'd, 'e, 'i) callbackArgs list \<Rightarrow>
   ('f, 'd, 'e, 'i) callbackCall list list" where
  "renders prev [] = []"
| "renders prev (a # as) =
     (case useActionCallbacks prev a of (m, calls) \<Rightarrow> calls # renders (Some m) as)"

subsection \<open>\<^verbatim>\<open>useAction\<close> and \<^verbatim>\<open>useOptimisticAction\<close>\<close>

text \<open>
  Both hooks keep the same two \<^verbatim>\<open>useState\<close> cells, \<^verbatim>\<open>response\<close> (initially \<^verbatim>\<open>{}\<close>) and \<^verbatim>\<open>input\<close>
  (initially \<^verbatim>\<open>undefined\<close>). Every \<^verbatim>\<open>setResponse\<close> of the source stores an object that did not
  exist before (an object literal, or the result that arrived from the action), so the identity
  of the stored object is counted up. The flag \<^verbatim>\<open>isExecuting\<close> belongs to React (\<^verbatim>\<open>useTransition\<close>,
  \<^verbatim>\<open>experimental_useOptimistic\<close>) and is an argument of a render.
\<close>

record ('d, 'e, 'i) hookState =
  response :: "('d, 'e) responseObject"
  input :: "'i option"

definition initialHookState :: "('d, 'e, 'i) hookState" where
  "initialHookState = \<lparr>response = (0, emptyResponse), input = None\<rparr>"

definition setResponse :: "('d, 'e) HookResponse \<Rightarrow> ('d, 'e, 'i) hookState \<Rightarrow> ('d, 'e, 'i) hookState" where
  "setResponse r st = st\<lparr>response := (Suc (fst (response st)), r)\<rparr>"

definition setInput :: "'i \<Rightarrow> ('d, 'e, 'i) hookState \<Rightarrow> ('d, 'e, 'i) hookState" where
  "setInput i st = st\<lparr>input := Some i\<rparr>"

definition useAction_reset :: "('d, 'e, 'i) hookState \<Rightarrow> ('d, 'e, 'i) hookState" where
  "useAction_reset st = setResponse emptyResponse st"

definition useOptimisticAction_reset :: "('d, 'e, 'i) hookState \<Rightarrow> ('d, 'e, 'i) hookState" where
  "useOptimisticAction_reset st = setResponse emptyResponse st"

text \<open>
  \<^verbatim>\<open>execute(input)\<close> stores the input and calls the action; when the promise of the action
  settles, \<^verbatim>\<open>.then\<close> stores the result, and \<^verbatim>\<open>.catch\<close> throws a navigation signal again (\<open>Inl\<close>,
  the state as it was) and stores any other rejection value as \<^verbatim>\<open>fetchError\<close> (a rejection
  with the value \<^verbatim>\<open>undefined\<close> is not in \<open>'e\<close>).
\<close>

definition execute :: "'i \<Rightarrow> ('d, 'e, 'i) hookState \<Rightarrow> ('d, 'e, 'i) hookState" where
  "execute i st = setInput i st"

definition execute_then :: "('d, 'e) HookResponse \<Rightarrow> ('d, 'e, 'i) hookState \<Rightarrow> ('d, 'e, 'i) hookState" where
  "execute_then r st = setResponse r st"

definition execute_catch ::
  "'e utils \<Rightarrow> 'e \<Rightarrow> ('d, 'e, 'i) hookState \<Rightarrow> 'e + ('d, 'e, 'i) hookState" where
  "execute_catch u e st =
     (if isNextRedirectError u e \<or> isNextNotFoundError u e then Inl e
      else Inr (setResponse (emptyResponse\<lparr>fetchError := Some e\<rparr>) st))"

text \<open>What can happen to a hook between two renders, and the state after a sequence of it.\<close>

datatype ('d, 'e, 'i) hookOp =
    Execute 'i
  | Resolves "('d, 'e) HookResponse"
  | Rejects 'e
  | Reset

fun isExecute :: "('d, 'e, 'i) hookOp \<Rightarrow> bool" where
  "isExecute (Execute i) = True"
| "isExecute _ = False"

fun hookStep :: "'e utils \<Rightarrow> ('d, 'e, 'i) hookState \<Rightarrow> ('d, 'e, 'i) hookOp \<Rightarrow> ('d, 'e, 'i) hookState" where
  "hookStep u st (Execute i) = execute i st"
| "hookStep u st (Resolves r) = execute_then r st"
| "hookStep u st (Rejects e) = (case execute_catch u e st of Inl _ \<Rightarrow> st | Inr st' \<Rightarrow> st')"
| "hookStep u st Reset = useAction_reset st"

definition hookRun ::
  "'e utils \<Rightarrow> ('d, 'e, 'i) hookState \<Rightarrow> ('d, 'e, 'i) hookOp list \<Rightarrow> ('d, 'e, 'i) hookState" where
  "hookRun u st ops = foldl (hookStep u) st ops"

text \<open>
  One render of \<^verbatim>\<open>useAction\<close>: the status is derived, then \<^verbatim>\<open>useActionCallbacks\<close> is called with
  the two state cells (\<open>useAction_args\<close> is the argument list of that call). \<^verbatim>\<open>reset\<close> comes
  from \<^verbatim>\<open>useCallback\<close> with no dependencies: the same
  function at every render, number 0 here. \<^verbatim>\<open>useOptimisticAction\<close> does the same with the flag
  \<^verbatim>\<open>optState.__isExecuting__\<close>.
\<close>

definition useAction_args ::
  "'f HookCallbacks option \<Rightarrow> bool \<Rightarrow> ('d, 'e, 'i) hookState \<Rightarrow> ('f, 'd, 'e, 'i) callbackArgs" where
  "useAction_args cb isExecuting st =
     (let status = getActionStatus isExecuting (snd (response st))
      in \<lparr>arg_response = response st, arg_input = input st, arg_status = status,
          arg_reset = 0, arg_cb = cb\<rparr>)"

definition useAction ::
  "'f callbackMemory option \<Rightarrow> 'f HookCallbacks option \<Rightarrow> bool \<Rightarrow> ('d, 'e, 'i) hookState \<Rightarrow>
   'f callbackMemory \<times> ('f, 'd, 'e, 'i) callbackCall list" where
  "useAction prev cb isExecuting st = useActionCallbacks prev (useAction_args cb isExecuting st)"

definition useOptimisticAction ::
  "'f callbackMemory option \<Rightarrow> 'f HookCallbacks option \<Rightarrow> bool \<Rightarrow> ('d, 'e, 'i) hookState \<Rightarrow>
   'f callbackMemory \<times> ('f, 'd, 'e, 'i) callbackCall list" where
  "useOptimisticAction prev cb optState_isExecuting st =
     (let status = getActionStatus optState_isExecuting (snd (response st))
      in useActionCallbacks prev
           \<lparr>arg_response = response st, arg_input = input st, arg_status = status,
            arg_reset = 0, arg_cb = cb\<rparr>)"

fun call_input :: "('f, 'd, 'e, 'i) callbackCall \<Rightarrow> 'i option" where
  "call_input (OnSuccessCalled f d i r) = i"
| "call_input (OnErrorCalled f resp i r) = i"

section \<open>Properties of the flattened field errors\<close>

lemma map_of_push_message:
  "map_of (push_message k m fe) =
     (map_of fe)(k \<mapsto> (case map_of fe k of None \<Rightarrow> [m] | Some ms \<Rightarrow> ms @ [m]))"
  by (induction k m fe rule: push_message.induct) (auto simp: fun_eq_iff)

lemma keys_push_message: "fst ` set (push_message k m fe) = insert k (fst ` set fe)"
  by (induction k m fe rule: push_message.induct) auto

lemma distinct_push_message:
  "distinct (map fst fe) \<Longrightarrow> distinct (map fst (push_message k m fe))"
  by (induction k m fe rule: push_message.induct) (auto simp: keys_push_message)

lemma flatten_fieldErrors_snoc:
  "flatten_fieldErrors (issues @ [sub]) = flatten_issue (flatten_fieldErrors issues) sub"
  by (simp add: flatten_fieldErrors_def)

lemma messages_of_snoc:
  "messages_of (issues @ [sub]) k =
     messages_of issues k @
     (if issue_path sub \<noteq> [] \<and> hd (issue_path sub) = k then [issue_message sub] else [])"
  by (simp add: messages_of_def)

lemma distinct_flatten_fieldErrors: "distinct (map fst (flatten_fieldErrors issues))"
proof (induction issues rule: rev_induct)
  case Nil
  show ?case by (simp add: flatten_fieldErrors_def)
next
  case (snoc sub issues)
  then show ?case
    by (cases "issue_path sub")
       (simp_all add: flatten_fieldErrors_snoc flatten_issue_def distinct_push_message)
qed

lemma map_of_flatten_fieldErrors:
  "map_of (flatten_fieldErrors issues) k =
     (if messages_of issues k = [] then None else Some (messages_of issues k))"
proof (induction issues rule: rev_induct)
  case Nil
  show ?case by (simp add: flatten_fieldErrors_def messages_of_def)
next
  case (snoc sub issues)
  show ?case
  proof (cases "issue_path sub")
    case Nil
    with snoc show ?thesis
      by (simp add: flatten_fieldErrors_snoc flatten_issue_def messages_of_snoc)
  next
    case (Cons k' rest)
    with snoc show ?thesis
      by (auto simp: flatten_fieldErrors_snoc flatten_issue_def messages_of_snoc
            map_of_push_message)
  qed
qed

lemma messages_of_empty_iff: "messages_of issues k = [] \<longleftrightarrow> k \<notin> invalid_fields issues"
  by (auto simp: messages_of_def invalid_fields_def filter_empty_conv image_iff)

lemma set_flatten_fieldErrors:
  "set (flatten_fieldErrors issues) = (\<lambda>k. (k, messages_of issues k)) ` invalid_fields issues"
proof -
  have "(k, ms) \<in> set (flatten_fieldErrors issues) \<longleftrightarrow>
        k \<in> invalid_fields issues \<and> ms = messages_of issues k" for k ms
    using map_of_flatten_fieldErrors [of issues k]
      map_of_eq_Some_iff [OF distinct_flatten_fieldErrors, of issues k ms]
    by (auto simp: messages_of_empty_iff split: if_splits)
  then show ?thesis by auto
qed

text \<open>
  The library's loop throws exactly when an issue names a property that objects inherit;
  otherwise it returns the mapping above.
\<close>

lemma zod_flatten_eq:
  "zod_flatten typeError fe issues =
     (if \<exists>i \<in> set issues. issue_path i \<noteq> [] \<and> hd (issue_path i) \<in> set objectPrototypeProperties
      then Inl typeError else Inr (foldl flatten_issue fe issues))"
proof (induction issues arbitrary: fe)
  case Nil
  show ?case by simp
next
  case (Cons sub issues)
  show ?case
  proof (cases "issue_path sub")
    case Nil
    then have "flatten_issue fe sub = fe" by (simp add: flatten_issue_def)
    with Nil Cons.IH show ?thesis by simp
  next
    case (Cons k rest)
    then have "flatten_issue fe sub = push_message k (issue_message sub) fe"
      by (simp add: flatten_issue_def)
    with Cons Cons.IH show ?thesis by simp
  qed
qed

lemma error_flatten_zodError:
  "error_flatten (zodError typeError issues) =
     (if \<exists>i \<in> set issues. issue_path i \<noteq> [] \<and> hd (issue_path i) \<in> set objectPrototypeProperties
      then Inl typeError else Inr (flatten_fieldErrors issues))"
  by (simp add: zodError_def zod_flatten_eq flatten_fieldErrors_def)

section \<open>Properties of the action builder\<close>

subsection \<open>The two blocks\<close>

lemma tryBlock_no_hook:
  "tryBlock opts safeParse serverCode clientInput = (evs, out) \<Longrightarrow>
     filter isHookEvent evs = [] \<and> (\<forall>x. ConsoleWarn x \<notin> set evs)"
  by (auto simp: tryBlock_def getContext_def
           split: sum.splits SafeParseReturnType.splits option.splits prod.splits)

lemma tryBlock_result:
  "tryBlock opts safeParse serverCode clientInput = (evs, Inr r) \<Longrightarrow>
     populated r \<le> 1 \<and> fetchError r = None \<and> serverError r = None"
  by (auto simp: tryBlock_def populated_def emptyResponse_def
           split: sum.splits SafeParseReturnType.splits option.splits prod.splits)

lemma tryBlock_parsed:
  assumes "safeParse clientInput = Inr (SafeParseSuccess parsed)"
    and "Option.bind opts buildContext = None \<and> ctx = EmptyObject \<or>
         (\<exists>c. Option.bind opts buildContext = Some (Inr c) \<and> ctx = Context c)"
  shows "tryBlock opts safeParse serverCode clientInput =
           ((if Option.bind opts buildContext = None then [] else [BuildContextCalled]) @
              [ServerCodeCalled parsed ctx],
            case serverCode parsed ctx of Inl e \<Rightarrow> Inl e | Inr r \<Rightarrow> Inr (emptyResponse\<lparr>data := r\<rparr>))"
  using assms by (auto simp: tryBlock_def getContext_def split: sum.splits)

lemma tryBlock_buildContext_throws:
  assumes "safeParse clientInput = Inr (SafeParseSuccess parsed)"
    and "Option.bind opts buildContext = Some (Inl e)"
  shows "tryBlock opts safeParse serverCode clientInput = ([BuildContextCalled], Inl e)"
  using assms by (simp add: tryBlock_def getContext_def)

lemma catchBlock_result:
  "catchBlock u opts e = (evs, Fulfilled r) \<Longrightarrow>
     (populated r = 1 \<and> fetchError r = None \<and> serverError r \<noteq> None) \<or>
     (\<exists>g. Option.bind opts handleReturnedServerError = Some g \<and> g e = Inr r)"
  by (auto simp: catchBlock_def client_handleReturnedServerError_def populated_def
        emptyResponse_def
      split: if_splits sum.splits option.splits prod.splits)

lemma catchBlock_rejected:
  "catchBlock u opts e = (evs, Rejected x) \<Longrightarrow>
     (x = e \<and> isNavigationSignal u e) \<or>
     (\<exists>f. Option.bind opts handleServerErrorLog = Some f \<and> f e = Inl x) \<or>
     (\<exists>g. Option.bind opts handleReturnedServerError = Some g \<and> g e = Inl x)"
  by (auto simp: catchBlock_def client_handleReturnedServerError_def
        client_handleServerErrorLog_def isNavigationSignal_def
      split: if_splits sum.splits option.splits prod.splits)

lemma catchBlock_no_serverCode_fst:
  "filter isServerCodeCalled (fst (catchBlock u opts e)) = []"
  by (auto simp: catchBlock_def client_handleServerErrorLog_def
      split: if_splits sum.splits option.splits prod.splits)

lemma catchBlock_no_serverCode:
  assumes "catchBlock u opts e = (evs, out)"
  shows "filter isServerCodeCalled evs = []"
proof -
  have "filter isServerCodeCalled (fst (evs, out)) = []"
    unfolding assms [symmetric] by (rule catchBlock_no_serverCode_fst)
  then show ?thesis by simp
qed

lemma safeAction_throw:
  "tryBlock opts safeParse serverCode clientInput = (evs, Inl e) \<Longrightarrow>
   catchBlock u opts e = (evs', out) \<Longrightarrow>
   safeAction u opts safeParse serverCode clientInput = (evs @ evs', out)"
  by (simp add: safeAction_def)

lemma safeAction_throw_dest:
  assumes "tryBlock opts safeParse serverCode clientInput = (evs, Inl e)"
    and "safeAction u opts safeParse serverCode clientInput = (evs1, out)"
  shows "\<exists>evs'. catchBlock u opts e = (evs', out) \<and> evs1 = evs @ evs'"
  using assms by (auto simp: safeAction_def split: prod.splits)

lemma safeAction_return:
  "tryBlock opts safeParse serverCode clientInput = (evs, Inr r) \<Longrightarrow>
   safeAction u opts safeParse serverCode clientInput = (evs, Fulfilled r)"
  by (simp add: safeAction_def)

subsection \<open>Validation failure\<close>

text \<open>
  When the parse fails and \<^verbatim>\<open>flatten\<close> returns, the promise resolves to a result with only
  \<^verbatim>\<open>validationError\<close> populated, and nothing else happens: no event at all. When \<^verbatim>\<open>flatten\<close>
  throws, the thrown value goes to the \<^verbatim>\<open>catch\<close> block like any other.
\<close>

lemma tryBlock_flatten_returns:
  assumes "safeParse clientInput = Inr (SafeParseError err)" and "error_flatten err = Inr fe"
  shows "tryBlock opts safeParse serverCode clientInput =
           ([], Inr (emptyResponse\<lparr>validationError := Some fe\<rparr>))"
  using assms by (simp add: tryBlock_def)

lemma tryBlock_flatten_throws:
  assumes "safeParse clientInput = Inr (SafeParseError err)" and "error_flatten err = Inl e"
  shows "tryBlock opts safeParse serverCode clientInput = ([], Inl e)"
  using assms by (simp add: tryBlock_def)

lemma validationError_when_flatten_returns:
  assumes "safeParse clientInput = Inr (SafeParseError err)" and "error_flatten err = Inr fe"
  shows "safeAction u opts safeParse serverCode clientInput =
           ([], Fulfilled \<lparr>data = None, validationError = Some fe,
                           serverError = None, fetchError = None\<rparr>)"
  using tryBlock_flatten_returns [where safeParse = safeParse and clientInput = clientInput,
      OF assms, of opts serverCode]
  by (simp add: safeAction_def emptyResponse_def)

text \<open>
  For the error object of the library, when no issue names an inherited property: the keys
  of the mapping are distinct and are exactly the fields that some issue names (the head of
  its non-empty path), and each has the non-empty list of the messages of its issues.
\<close>

lemma validationError_fields:
  assumes "safeParse clientInput = Inr (SafeParseError (zodError typeError issues))"
    and "\<forall>i \<in> set issues. issue_path i = [] \<or> hd (issue_path i) \<notin> set objectPrototypeProperties"
  shows "safeAction u opts safeParse serverCode clientInput =
           ([], Fulfilled \<lparr>data = None, validationError = Some (flatten_fieldErrors issues),
                           serverError = None, fetchError = None\<rparr>) \<and>
         fst ` set (flatten_fieldErrors issues) = invalid_fields issues \<and>
         distinct (map fst (flatten_fieldErrors issues)) \<and>
         (\<forall>(k, ms) \<in> set (flatten_fieldErrors issues). ms \<noteq> [] \<and> ms = messages_of issues k)"
proof -
  from assms(2) have "error_flatten (zodError typeError issues) = Inr (flatten_fieldErrors issues)"
    by (auto simp: error_flatten_zodError)
  from validationError_when_flatten_returns [where safeParse = safeParse
      and clientInput = clientInput, OF assms(1) this]
  have run: "safeAction u opts safeParse serverCode clientInput =
      ([], Fulfilled \<lparr>data = None, validationError = Some (flatten_fieldErrors issues),
                      serverError = None, fetchError = None\<rparr>)" .
  have keys: "fst ` set (flatten_fieldErrors issues) = invalid_fields issues"
    by (simp add: set_flatten_fieldErrors image_image)
  have lists: "\<forall>(k, ms) \<in> set (flatten_fieldErrors issues). ms \<noteq> [] \<and> ms = messages_of issues k"
    by (auto simp: set_flatten_fieldErrors messages_of_empty_iff)
  from run keys lists distinct_flatten_fieldErrors show ?thesis by blast
qed

text \<open>
  Claim C1. The claim, like the comment above the built action in the source, has every input
  that fails the schema answered by a result with only \<^verbatim>\<open>validationError\<close>, with no call of the
  handler or of \<^verbatim>\<open>buildContext\<close> and no logging. That is what the code does when \<^verbatim>\<open>flatten\<close>
  returns (\<open>validationError_fields\<close>). It is not what it does for the schema with one required
  string field named \<^verbatim>\<open>toString\<close> and the input \<^verbatim>\<open>{}\<close>: the parse fails with one issue at the path
  \<^verbatim>\<open>["toString"]\<close>, \<^verbatim>\<open>flatten\<close> throws a \<^verbatim>\<open>TypeError\<close> inside the \<^verbatim>\<open>try\<close> block, and the \<^verbatim>\<open>catch\<close>
  block calls the logging hook and answers with \<^verbatim>\<open>serverError\<close>.
\<close>

theorem validation_failure_answered_with_serverError:
  "safeAction
     \<lparr>DEFAULT_SERVER_ERROR = ''Something went wrong'', isError = (\<lambda>e. e \<noteq> ''a string''),
      isNextNotFoundError = (\<lambda>e. e = ''NEXT_NOT_FOUND''),
      isNextRedirectError = (\<lambda>e. e = ''NEXT_REDIRECT'')\<rparr>
     (None :: (string, string, nat) createOpts option)
     (\<lambda>raw :: string. Inr (SafeParseError (zodError ''TypeError''
        [\<lparr>issue_path = [''toString''], issue_message = ''Required''\<rparr>]))
        :: string + (string, nat) SafeParseReturnType)
     (\<lambda>(p :: nat) (ctx :: string executionContext). Inr (Some (p + 1)) :: string + nat option) ''{}''
   = ([HandleServerErrorLogCalled ''TypeError'', ConsoleErrorMessage ''TypeError'',
       HandleReturnedServerErrorCalled ''TypeError''],
      Fulfilled \<lparr>data = None, validationError = None,
              serverError = Some ''Something went wrong'', fetchError = None\<rparr>)"
  by (simp add: safeAction_def tryBlock_def getContext_def catchBlock_def client_handleServerErrorLog_def client_handleReturnedServerError_def emptyResponse_def isNavigationSignal_def zodError_def objectPrototypeProperties_def)

subsection \<open>Successful parse\<close>

text \<open>
  The claim fails in two ways. The handler is not called for every input that passes the
  schema: when \<^verbatim>\<open>buildContext\<close> is configured and throws, the \<^verbatim>\<open>catch\<close> block takes over before
  the handler is reached; below \<^verbatim>\<open>buildContext\<close> rejects with an \<^verbatim>\<open>Error\<close>, the input \<^verbatim>\<open>"abc"\<close>
  parses, and the events hold no call of the handler. And a handler that returns normally does
  not always leave \<^verbatim>\<open>data\<close> populated: when it returns \<^verbatim>\<open>undefined\<close>, the result \<^verbatim>\<open>{data: undefined}\<close>
  has no variant populated.
\<close>

theorem handler_skipped_or_data_undefined:
  "safeAction
     \<lparr>DEFAULT_SERVER_ERROR = ''Something went wrong'', isError = (\<lambda>e. e \<noteq> ''a string''),
      isNextNotFoundError = (\<lambda>e. e = ''NEXT_NOT_FOUND''),
      isNextRedirectError = (\<lambda>e. e = ''NEXT_REDIRECT'')\<rparr>
     (Some \<lparr>buildContext = Some (Inl ''no session''), handleReturnedServerError = None,
        handleServerErrorLog = None\<rparr> :: (string, string, nat) createOpts option)
     (\<lambda>raw :: string. Inr (SafeParseSuccess (length raw)) :: string + (string, nat) SafeParseReturnType)
     (\<lambda>(p :: nat) (ctx :: string executionContext). Inr (Some (p + 1)) :: string + nat option) ''abc''
   = ([BuildContextCalled, HandleServerErrorLogCalled ''no session'',
       ConsoleErrorMessage ''no session'', HandleReturnedServerErrorCalled ''no session''],
      Fulfilled \<lparr>data = None, validationError = None,
              serverError = Some ''Something went wrong'', fetchError = None\<rparr>) \<and>
   safeAction
     \<lparr>DEFAULT_SERVER_ERROR = ''Something went wrong'', isError = (\<lambda>e. e \<noteq> ''a string''),
      isNextNotFoundError = (\<lambda>e. e = ''NEXT_NOT_FOUND''),
      isNextRedirectError = (\<lambda>e. e = ''NEXT_REDIRECT'')\<rparr>
     (None :: (string, string, nat) createOpts option)
     (\<lambda>raw :: string. Inr (SafeParseSuccess (length raw)) :: string + (string, nat) SafeParseReturnType)
     (\<lambda>(p :: nat) (ctx :: string executionContext). Inr None :: string + nat option) ''abc''
   = ([ServerCodeCalled 3 EmptyObject],
      Fulfilled \<lparr>data = None, validationError = None, serverError = None, fetchError = None\<rparr>) \<and>
   populated (\<lparr>data = None, validationError = None, serverError = None, fetchError = None\<rparr>
              :: (nat, string) HookResponse) = 0"
  by (simp add: safeAction_def tryBlock_def getContext_def catchBlock_def client_handleServerErrorLog_def client_handleReturnedServerError_def emptyResponse_def isNavigationSignal_def populated_def)

lemma handler_called_once:
  assumes "safeParse clientInput = Inr (SafeParseSuccess parsed)"
    and "Option.bind opts buildContext = None \<and> ctx = EmptyObject \<or>
         (\<exists>c. Option.bind opts buildContext = Some (Inr c) \<and> ctx = Context c)"
  shows "filter isServerCodeCalled (fst (safeAction u opts safeParse serverCode clientInput)) =
           [ServerCodeCalled parsed ctx] \<and>
         (\<forall>r. serverCode parsed ctx = Inr r \<longrightarrow>
            snd (safeAction u opts safeParse serverCode clientInput) =
              Fulfilled \<lparr>data = r, validationError = None, serverError = None, fetchError = None\<rparr>)"
proof (cases "serverCode parsed ctx")
  case (Inl e)
  from tryBlock_parsed [where safeParse = safeParse and clientInput = clientInput
      and serverCode = serverCode, OF assms] Inl
  have thrown: "tryBlock opts safeParse serverCode clientInput =
      ((if Option.bind opts buildContext = None then [] else [BuildContextCalled]) @
              [ServerCodeCalled parsed ctx], Inl e)" by simp
  obtain evs1 out where run: "safeAction u opts safeParse serverCode clientInput = (evs1, out)"
    by (rule prod.exhaust)
  from safeAction_throw_dest [OF thrown run] obtain evs'
    where caught: "catchBlock u opts e = (evs', out) \<and>
      evs1 = ((if Option.bind opts buildContext = None then [] else [BuildContextCalled]) @
              [ServerCodeCalled parsed ctx]) @ evs'" ..
  from caught have "catchBlock u opts e = (evs', out)" ..
  from catchBlock_no_serverCode [OF this]
  have "filter isServerCodeCalled evs' = []" .
  with run caught Inl show ?thesis by simp
next
  case (Inr r)
  with tryBlock_parsed [where safeParse = safeParse and clientInput = clientInput
      and serverCode = serverCode, OF assms]
  have "safeAction u opts safeParse serverCode clientInput =
      ((if Option.bind opts buildContext = None then [] else [BuildContextCalled]) @
              [ServerCodeCalled parsed ctx], Fulfilled (emptyResponse\<lparr>data := r\<rparr>))"
    by (simp add: safeAction_return)
  with Inr show ?thesis by (simp add: emptyResponse_def)
qed

lemma handler_skipped:
  assumes "safeParse clientInput = Inr (SafeParseSuccess parsed)"
    and "Option.bind opts buildContext = Some (Inl e)"
  shows "filter isServerCodeCalled (fst (safeAction u opts safeParse serverCode clientInput)) = []"
proof -
  from tryBlock_buildContext_throws [where safeParse = safeParse and clientInput = clientInput,
      OF assms]
  have thrown: "tryBlock opts safeParse serverCode clientInput = ([BuildContextCalled], Inl e)" .
  obtain evs1 out where run: "safeAction u opts safeParse serverCode clientInput = (evs1, out)"
    by (rule prod.exhaust)
  from safeAction_throw_dest [OF thrown run] obtain evs'
    where caught: "catchBlock u opts e = (evs', out) \<and> evs1 = [BuildContextCalled] @ evs'" ..
  from caught have "catchBlock u opts e = (evs', out)" ..
  from catchBlock_no_serverCode [OF this]
  have "filter isServerCodeCalled evs' = []" .
  with run caught show ?thesis by simp
qed

text \<open>
  Claim C2, amended. For every input that passes the schema: when \<^verbatim>\<open>buildContext\<close> is absent
  or resolves, the handler is called exactly once, with the parsed input (not the raw one) and
  with the context, which is the empty object when \<^verbatim>\<open>buildContext\<close> is absent and its result
  otherwise; if the handler then returns \<open>r\<close>, the promise resolves to a result that has no
  variant but \<^verbatim>\<open>data\<close>, and its \<^verbatim>\<open>data\<close> is \<open>r\<close>: populated with the returned value, or not
  populated when the handler returned \<^verbatim>\<open>undefined\<close>. When \<^verbatim>\<open>buildContext\<close> throws, the handler is
  not called.
\<close>

theorem handler_called_once_with_parsed_input:
  assumes "safeParse clientInput = Inr (SafeParseSuccess parsed)"
  shows "((Option.bind opts buildContext = None \<and> ctx = EmptyObject \<or>
           (\<exists>c. Option.bind opts buildContext = Some (Inr c) \<and> ctx = Context c)) \<longrightarrow>
          filter isServerCodeCalled (fst (safeAction u opts safeParse serverCode clientInput)) =
            [ServerCodeCalled parsed ctx] \<and>
          (\<forall>r. serverCode parsed ctx = Inr r \<longrightarrow>
             (let result = \<lparr>data = r, validationError = None, serverError = None, fetchError = None\<rparr>
              in snd (safeAction u opts safeParse serverCode clientInput) = Fulfilled result \<and>
                 populated result = (if r = None then 0 else 1)))) \<and>
         ((\<exists>e. Option.bind opts buildContext = Some (Inl e)) \<longrightarrow>
          filter isServerCodeCalled (fst (safeAction u opts safeParse serverCode clientInput)) = [])"
proof (intro conjI impI)
  assume built: "Option.bind opts buildContext = None \<and> ctx = EmptyObject \<or>
           (\<exists>c. Option.bind opts buildContext = Some (Inr c) \<and> ctx = Context c)"
  from handler_called_once [where safeParse = safeParse and clientInput = clientInput,
      OF assms built, of u serverCode]
  show "filter isServerCodeCalled (fst (safeAction u opts safeParse serverCode clientInput)) =
            [ServerCodeCalled parsed ctx]"
    and "\<forall>r. serverCode parsed ctx = Inr r \<longrightarrow>
             (let result = \<lparr>data = r, validationError = None, serverError = None, fetchError = None\<rparr>
              in snd (safeAction u opts safeParse serverCode clientInput) = Fulfilled result \<and>
                 populated result = (if r = None then 0 else 1))"
    by (simp_all add: populated_def Let_def)
next
  assume "\<exists>e. Option.bind opts buildContext = Some (Inl e)"
  then obtain e where "Option.bind opts buildContext = Some (Inl e)" ..
  from handler_skipped [where safeParse = safeParse and clientInput = clientInput,
      OF assms this]
  show "filter isServerCodeCalled (fst (safeAction u opts safeParse serverCode clientInput)) = []" .
qed

theorem handler_called_once_with_parsed_input_witness:
  "filter isServerCodeCalled (fst (safeAction
     \<lparr>DEFAULT_SERVER_ERROR = ''Something went wrong'', isError = (\<lambda>e. e \<noteq> ''a string''),
      isNextNotFoundError = (\<lambda>e. e = ''NEXT_NOT_FOUND''),
      isNextRedirectError = (\<lambda>e. e = ''NEXT_REDIRECT'')\<rparr>
     (Some \<lparr>buildContext = Some (Inr ''user 7''), handleReturnedServerError = None,
        handleServerErrorLog = None\<rparr> :: (string, string, nat) createOpts option)
     (\<lambda>raw :: string. Inr (SafeParseSuccess (length raw)) :: string + (string, nat) SafeParseReturnType)
     (\<lambda>(p :: nat) (ctx :: string executionContext). Inr (Some (p + 1)) :: string + nat option) ''abc''))
   = [ServerCodeCalled 3 (Context ''user 7'')] \<and>
   snd (safeAction
     \<lparr>DEFAULT_SERVER_ERROR = ''Something went wrong'', isError = (\<lambda>e. e \<noteq> ''a string''),
      isNextNotFoundError = (\<lambda>e. e = ''NEXT_NOT_FOUND''),
      isNextRedirectError = (\<lambda>e. e = ''NEXT_REDIRECT'')\<rparr>
     (Some \<lparr>buildContext = Some (Inr ''user 7''), handleReturnedServerError = None,
        handleServerErrorLog = None\<rparr> :: (string, string, nat) createOpts option)
     (\<lambda>raw :: string. Inr (SafeParseSuccess (length raw)) :: string + (string, nat) SafeParseReturnType)
     (\<lambda>(p :: nat) (ctx :: string executionContext). Inr (Some (p + 1)) :: string + nat option) ''abc'')
   = Fulfilled \<lparr>data = Some 4, validationError = None, serverError = None, fetchError = None\<rparr> \<and>
   filter isServerCodeCalled (fst (safeAction
     \<lparr>DEFAULT_SERVER_ERROR = ''Something went wrong'', isError = (\<lambda>e. e \<noteq> ''a string''),
      isNextNotFoundError = (\<lambda>e. e = ''NEXT_NOT_FOUND''),
      isNextRedirectError = (\<lambda>e. e = ''NEXT_REDIRECT'')\<rparr>
     (Some \<lparr>buildContext = Some (Inl ''no session''), handleReturnedServerError = None,
        handleServerErrorLog = None\<rparr> :: (string, string, nat) createOpts option)
     (\<lambda>raw :: string. Inr (SafeParseSuccess (length raw)) :: string + (string, nat) SafeParseReturnType)
     (\<lambda>(p :: nat) (ctx :: string executionContext). Inr (Some (p + 1)) :: string + nat option) ''abc''))
   = []"
  using handler_called_once_with_parsed_input
    [where safeParse = "(\<lambda>raw :: string. Inr (SafeParseSuccess (length raw)) :: string + (string, nat) SafeParseReturnType)" and clientInput = "''abc''" and parsed = 3
      and opts = "(Some \<lparr>buildContext = Some (Inr ''user 7''), handleReturnedServerError = None,
        handleServerErrorLog = None\<rparr> :: (string, string, nat) createOpts option)" and ctx = "Context ''user 7''"
      and serverCode = "(\<lambda>(p :: nat) (ctx :: string executionContext). Inr (Some (p + 1)) :: string + nat option)"
      and u = "\<lparr>DEFAULT_SERVER_ERROR = ''Something went wrong'', isError = (\<lambda>e. e \<noteq> ''a string''),
      isNextNotFoundError = (\<lambda>e. e = ''NEXT_NOT_FOUND''),
      isNextRedirectError = (\<lambda>e. e = ''NEXT_REDIRECT'')\<rparr>"]
    handler_called_once_with_parsed_input
    [where safeParse = "(\<lambda>raw :: string. Inr (SafeParseSuccess (length raw)) :: string + (string, nat) SafeParseReturnType)" and clientInput = "''abc''" and parsed = 3
      and opts = "(Some \<lparr>buildContext = Some (Inl ''no session''), handleReturnedServerError = None,
        handleServerErrorLog = None\<rparr> :: (string, string, nat) createOpts option)"
      and serverCode = "(\<lambda>(p :: nat) (ctx :: string executionContext). Inr (Some (p + 1)) :: string + nat option)"
      and u = "\<lparr>DEFAULT_SERVER_ERROR = ''Something went wrong'', isError = (\<lambda>e. e \<noteq> ''a string''),
      isNextNotFoundError = (\<lambda>e. e = ''NEXT_NOT_FOUND''),
      isNextRedirectError = (\<lambda>e. e = ''NEXT_REDIRECT'')\<rparr>"]
  by (simp add: Let_def)

subsection \<open>Navigation signals\<close>

text \<open>
  Claim C3. When the input parses and a navigation signal \<open>e\<close> (redirect or not-found) is thrown
  by \<^verbatim>\<open>buildContext\<close> or by the handler, the promise rejects with \<open>e\<close> itself, and the invocation
  has no event of the logging hook or of the server-error mapper, and no console warning.
\<close>

theorem navigation_signal_rethrown:
  assumes "safeParse clientInput = Inr (SafeParseSuccess parsed)"
    and "isNavigationSignal u e"
    and "Option.bind opts buildContext = Some (Inl e) \<or>
         ((Option.bind opts buildContext = None \<and> ctx = EmptyObject \<or>
           (\<exists>c. Option.bind opts buildContext = Some (Inr c) \<and> ctx = Context c)) \<and>
          serverCode parsed ctx = Inl e)"
  shows "snd (safeAction u opts safeParse serverCode clientInput) = Rejected e \<and>
         filter isHookEvent (fst (safeAction u opts safeParse serverCode clientInput)) = [] \<and>
         (\<forall>x. ConsoleWarn x \<notin> set (fst (safeAction u opts safeParse serverCode clientInput)))"
proof -
  have caught: "catchBlock u opts e = ([], Rejected e)"
    using assms(2) by (simp add: catchBlock_def isNavigationSignal_def)
  from assms(3) obtain evs where thrown:
    "tryBlock opts safeParse serverCode clientInput = (evs, Inl e)"
  proof
    assume "Option.bind opts buildContext = Some (Inl e)"
    from tryBlock_buildContext_throws [where safeParse = safeParse and clientInput = clientInput,
        OF assms(1) this] that
    show ?thesis by blast
  next
    assume h: "(Option.bind opts buildContext = None \<and> ctx = EmptyObject \<or>
           (\<exists>c. Option.bind opts buildContext = Some (Inr c) \<and> ctx = Context c)) \<and>
          serverCode parsed ctx = Inl e"
    then have "tryBlock opts safeParse serverCode clientInput =
           ((if Option.bind opts buildContext = None then [] else [BuildContextCalled]) @
              [ServerCodeCalled parsed ctx], Inl e)"
      using tryBlock_parsed [where safeParse = safeParse and clientInput = clientInput
          and serverCode = serverCode and opts = opts and ctx = ctx, OF assms(1)] by simp
    with that show ?thesis by blast
  qed
  from safeAction_throw [OF thrown caught]
  have "safeAction u opts safeParse serverCode clientInput = (evs, Rejected e)" by simp
  with tryBlock_no_hook [OF thrown] show ?thesis by simp
qed

theorem navigation_signal_rethrown_witness:
  "isNavigationSignal \<lparr>DEFAULT_SERVER_ERROR = ''Something went wrong'', isError = (\<lambda>e. e \<noteq> ''a string''),
      isNextNotFoundError = (\<lambda>e. e = ''NEXT_NOT_FOUND''),
      isNextRedirectError = (\<lambda>e. e = ''NEXT_REDIRECT'')\<rparr> ''NEXT_REDIRECT'' \<and>
   snd (safeAction
     \<lparr>DEFAULT_SERVER_ERROR = ''Something went wrong'', isError = (\<lambda>e. e \<noteq> ''a string''),
      isNextNotFoundError = (\<lambda>e. e = ''NEXT_NOT_FOUND''),
      isNextRedirectError = (\<lambda>e. e = ''NEXT_REDIRECT'')\<rparr>
     (None :: (string, string, nat) createOpts option)
     (\<lambda>raw :: string. Inr (SafeParseSuccess (length raw)) :: string + (string, nat) SafeParseReturnType)
     (\<lambda>(p :: nat) (ctx :: string executionContext). Inl ''NEXT_REDIRECT'' :: string + nat option) ''abc'')
   = Rejected ''NEXT_REDIRECT'' \<and>
   filter isHookEvent (fst (safeAction
     \<lparr>DEFAULT_SERVER_ERROR = ''Something went wrong'', isError = (\<lambda>e. e \<noteq> ''a string''),
      isNextNotFoundError = (\<lambda>e. e = ''NEXT_NOT_FOUND''),
      isNextRedirectError = (\<lambda>e. e = ''NEXT_REDIRECT'')\<rparr>
     (None :: (string, string, nat) createOpts option)
     (\<lambda>raw :: string. Inr (SafeParseSuccess (length raw)) :: string + (string, nat) SafeParseReturnType)
     (\<lambda>(p :: nat) (ctx :: string executionContext). Inl ''NEXT_REDIRECT'' :: string + nat option) ''abc'')) = []"
  using navigation_signal_rethrown
    [where safeParse = "(\<lambda>raw :: string. Inr (SafeParseSuccess (length raw)) :: string + (string, nat) SafeParseReturnType)" and clientInput = "''abc''" and parsed = 3
      and opts = "(None :: (string, string, nat) createOpts option)" and ctx = EmptyObject
      and serverCode = "(\<lambda>(p :: nat) (ctx :: string executionContext). Inl ''NEXT_REDIRECT'' :: string + nat option)" and e = "''NEXT_REDIRECT''"
      and u = "\<lparr>DEFAULT_SERVER_ERROR = ''Something went wrong'', isError = (\<lambda>e. e \<noteq> ''a string''),
      isNextNotFoundError = (\<lambda>e. e = ''NEXT_NOT_FOUND''),
      isNextRedirectError = (\<lambda>e. e = ''NEXT_REDIRECT'')\<rparr>"]
  by (simp add: isNavigationSignal_def)

subsection \<open>Errors thrown by the handler\<close>

text \<open>
  Claim C4. The handler throws a proper \<^verbatim>\<open>Error\<close> \<open>e\<close>: a value that passes \<^verbatim>\<open>isError\<close> and is not
  one of the navigation signals, which the spec does not count among the errors and which the
  \<^verbatim>\<open>catch\<close> block tests first. With neither \<^verbatim>\<open>handleServerErrorLog\<close> nor
  \<^verbatim>\<open>handleReturnedServerError\<close> configured, the events after the call of the handler are: the
  logging hook called once with \<open>e\<close>, its \<^verbatim>\<open>console.error\<close> of the message of \<open>e\<close>, and only then
  the call of the mapper that makes the result; the promise resolves to the default message.
\<close>

theorem default_handlers_log_then_mask:
  assumes "safeParse clientInput = Inr (SafeParseSuccess parsed)"
    and "Option.bind opts buildContext = None \<and> ctx = EmptyObject \<or>
         (\<exists>c. Option.bind opts buildContext = Some (Inr c) \<and> ctx = Context c)"
    and "serverCode parsed ctx = Inl e"
    and "isError u e" and "\<not> isNavigationSignal u e"
    and "Option.bind opts handleServerErrorLog = None"
    and "Option.bind opts handleReturnedServerError = None"
  shows "safeAction u opts safeParse serverCode clientInput =
           ((if Option.bind opts buildContext = None then [] else [BuildContextCalled]) @
            [ServerCodeCalled parsed ctx, HandleServerErrorLogCalled e, ConsoleErrorMessage e,
             HandleReturnedServerErrorCalled e],
            Fulfilled \<lparr>data = None, validationError = None,
                       serverError = Some (DEFAULT_SERVER_ERROR u), fetchError = None\<rparr>)"
proof -
  have thrown: "tryBlock opts safeParse serverCode clientInput =
           ((if Option.bind opts buildContext = None then [] else [BuildContextCalled]) @
              [ServerCodeCalled parsed ctx], Inl e)"
    using tryBlock_parsed [where safeParse = safeParse and clientInput = clientInput
        and serverCode = serverCode, OF assms(1,2)] assms(3) by simp
  have caught: "catchBlock u opts e =
      ([HandleServerErrorLogCalled e, ConsoleErrorMessage e, HandleReturnedServerErrorCalled e],
       Fulfilled \<lparr>data = None, validationError = None,
                  serverError = Some (DEFAULT_SERVER_ERROR u), fetchError = None\<rparr>)"
    using assms(4-7)
    by (simp add: catchBlock_def isNavigationSignal_def client_handleServerErrorLog_def
          client_handleReturnedServerError_def emptyResponse_def)
  from safeAction_throw [OF thrown caught] show ?thesis by simp
qed

theorem default_handlers_log_then_mask_witness:
  "safeAction
     \<lparr>DEFAULT_SERVER_ERROR = ''Something went wrong'', isError = (\<lambda>e. e \<noteq> ''a string''),
      isNextNotFoundError = (\<lambda>e. e = ''NEXT_NOT_FOUND''),
      isNextRedirectError = (\<lambda>e. e = ''NEXT_REDIRECT'')\<rparr>
     (None :: (string, string, nat) createOpts option)
     (\<lambda>raw :: string. Inr (SafeParseSuccess (length raw)) :: string + (string, nat) SafeParseReturnType)
     (\<lambda>(p :: nat) (ctx :: string executionContext). Inl ''db down'' :: string + nat option) ''abc''
   = ([ServerCodeCalled 3 EmptyObject, HandleServerErrorLogCalled ''db down'',
       ConsoleErrorMessage ''db down'', HandleReturnedServerErrorCalled ''db down''],
      Fulfilled \<lparr>data = None, validationError = None,
              serverError = Some ''Something went wrong'', fetchError = None\<rparr>)"
  using default_handlers_log_then_mask
    [where safeParse = "(\<lambda>raw :: string. Inr (SafeParseSuccess (length raw)) :: string + (string, nat) SafeParseReturnType)" and clientInput = "''abc''" and parsed = 3
      and opts = "(None :: (string, string, nat) createOpts option)" and ctx = EmptyObject
      and serverCode = "(\<lambda>(p :: nat) (ctx :: string executionContext). Inl ''db down'' :: string + nat option)" and e = "''db down''"
      and u = "\<lparr>DEFAULT_SERVER_ERROR = ''Something went wrong'', isError = (\<lambda>e. e \<noteq> ''a string''),
      isNextNotFoundError = (\<lambda>e. e = ''NEXT_NOT_FOUND''),
      isNextRedirectError = (\<lambda>e. e = ''NEXT_REDIRECT'')\<rparr>"]
  by (simp add: isNavigationSignal_def)

text \<open>
  Claim C5. A value \<open>e\<close> thrown in the \<^verbatim>\<open>try\<close> block that is neither a navigation signal nor an
  \<^verbatim>\<open>Error\<close>: the one event after those of the \<^verbatim>\<open>try\<close> block is the console warning, no event
  of the invocation belongs to \<^verbatim>\<open>handleServerErrorLog\<close> or \<^verbatim>\<open>handleReturnedServerError\<close>, and the
  promise resolves to the default message, whatever \<open>e\<close> is.
\<close>

theorem non_error_value_masked:
  assumes "tryBlock opts safeParse serverCode clientInput = (evs, Inl e)"
    and "\<not> isNavigationSignal u e" and "\<not> isError u e"
  shows "safeAction u opts safeParse serverCode clientInput =
           (evs @ [ConsoleWarn e],
            Fulfilled \<lparr>data = None, validationError = None,
                       serverError = Some (DEFAULT_SERVER_ERROR u), fetchError = None\<rparr>) \<and>
         filter isHookEvent (evs @ [ConsoleWarn e]) = []"
proof -
  have "catchBlock u opts e =
      ([ConsoleWarn e],
       Fulfilled \<lparr>data = None, validationError = None,
                  serverError = Some (DEFAULT_SERVER_ERROR u), fetchError = None\<rparr>)"
    using assms(2,3) by (simp add: catchBlock_def isNavigationSignal_def emptyResponse_def)
  from safeAction_throw [OF assms(1) this] tryBlock_no_hook [OF assms(1)] show ?thesis
    by simp
qed

theorem non_error_value_masked_witness:
  "safeAction
     \<lparr>DEFAULT_SERVER_ERROR = ''Something went wrong'', isError = (\<lambda>e. e \<noteq> ''a string''),
      isNextNotFoundError = (\<lambda>e. e = ''NEXT_NOT_FOUND''),
      isNextRedirectError = (\<lambda>e. e = ''NEXT_REDIRECT'')\<rparr>
     (Some \<lparr>buildContext = None, handleReturnedServerError = Some (\<lambda>e. Inr \<lparr>data = None, validationError = None, serverError = Some (''Failed: '' @ e), fetchError = None\<rparr>),
        handleServerErrorLog = Some (\<lambda>e. Inr ())\<rparr> :: (string, string, nat) createOpts option)
     (\<lambda>raw :: string. Inr (SafeParseSuccess (length raw)) :: string + (string, nat) SafeParseReturnType)
     (\<lambda>(p :: nat) (ctx :: string executionContext). Inl ''a string'' :: string + nat option) ''abc''
   = ([ServerCodeCalled 3 EmptyObject, ConsoleWarn ''a string''],
      Fulfilled \<lparr>data = None, validationError = None,
              serverError = Some ''Something went wrong'', fetchError = None\<rparr>)"
proof -
  have thrown: "tryBlock (Some \<lparr>buildContext = None, handleReturnedServerError = Some (\<lambda>e. Inr \<lparr>data = None, validationError = None, serverError = Some (''Failed: '' @ e), fetchError = None\<rparr>),
        handleServerErrorLog = Some (\<lambda>e. Inr ())\<rparr> :: (string, string, nat) createOpts option)
     (\<lambda>raw :: string. Inr (SafeParseSuccess (length raw)) :: string + (string, nat) SafeParseReturnType)
     (\<lambda>(p :: nat) (ctx :: string executionContext). Inl ''a string'' :: string + nat option) ''abc''
    = ([ServerCodeCalled 3 EmptyObject], Inl ''a string'')"
    by (simp add: tryBlock_def getContext_def)
  from non_error_value_masked [OF thrown,
      where u = "\<lparr>DEFAULT_SERVER_ERROR = ''Something went wrong'', isError = (\<lambda>e. e \<noteq> ''a string''),
      isNextNotFoundError = (\<lambda>e. e = ''NEXT_NOT_FOUND''),
      isNextRedirectError = (\<lambda>e. e = ''NEXT_REDIRECT'')\<rparr>"]
  show ?thesis by (simp add: isNavigationSignal_def)
qed

subsection \<open>What the promise can reject with\<close>

text \<open>
  The two error hooks are called inside the \<^verbatim>\<open>catch\<close> block, where nothing catches what they
  throw. Here the handler throws an \<^verbatim>\<open>Error\<close> and the configured \<^verbatim>\<open>handleServerErrorLog\<close> throws
  another one: the promise rejects with the latter, which is not a navigation signal.
\<close>

theorem rejects_when_log_hook_throws:
  "safeAction
     \<lparr>DEFAULT_SERVER_ERROR = ''Something went wrong'', isError = (\<lambda>e. e \<noteq> ''a string''),
      isNextNotFoundError = (\<lambda>e. e = ''NEXT_NOT_FOUND''),
      isNextRedirectError = (\<lambda>e. e = ''NEXT_REDIRECT'')\<rparr>
     (Some \<lparr>buildContext = None, handleReturnedServerError = None,
        handleServerErrorLog = Some (\<lambda>e. Inl ''logger down'')\<rparr> :: (string, string, nat) createOpts option)
     (\<lambda>raw :: string. Inr (SafeParseSuccess (length raw)) :: string + (string, nat) SafeParseReturnType)
     (\<lambda>(p :: nat) (ctx :: string executionContext). Inl ''db down'' :: string + nat option) ''abc''
   = ([ServerCodeCalled 3 EmptyObject, HandleServerErrorLogCalled ''db down''],
      Rejected ''logger down'') \<and>
   \<not> isNavigationSignal
     \<lparr>DEFAULT_SERVER_ERROR = ''Something went wrong'', isError = (\<lambda>e. e \<noteq> ''a string''),
      isNextNotFoundError = (\<lambda>e. e = ''NEXT_NOT_FOUND''),
      isNextRedirectError = (\<lambda>e. e = ''NEXT_REDIRECT'')\<rparr> ''logger down''"
  by (simp add: safeAction_def tryBlock_def getContext_def catchBlock_def client_handleServerErrorLog_def client_handleReturnedServerError_def emptyResponse_def isNavigationSignal_def)

text \<open>
  Claim C6, amended. The promise of the built action rejects only with a navigation signal, or
  with a value that a configured \<^verbatim>\<open>handleServerErrorLog\<close> or \<^verbatim>\<open>handleReturnedServerError\<close> throws.
  So when neither of these two throws, every failure of the schema, of \<^verbatim>\<open>buildContext\<close> or of the
  handler that is not a navigation signal becomes a resolved result.
\<close>

theorem rejection_is_signal_or_hook_failure:
  assumes "safeAction u opts safeParse serverCode clientInput = (evs, Rejected x)"
    (is "_ = (_, ?out)")
  shows "isNavigationSignal u x \<or>
         (\<exists>f e. Option.bind opts handleServerErrorLog = Some f \<and> f e = Inl x) \<or>
         (\<exists>g e. Option.bind opts handleReturnedServerError = Some g \<and> g e = Inl x)"
proof (cases "tryBlock opts safeParse serverCode clientInput")
  case (Pair evs0 out)
  show ?thesis
  proof (cases out)
    case (Inl e)
    with Pair have "tryBlock opts safeParse serverCode clientInput = (evs0, Inl e)" by simp
    from safeAction_throw_dest [OF this assms] obtain evs'
      where c: "catchBlock u opts e = (evs', ?out) \<and> evs = evs0 @ evs'" ..
    from c have "catchBlock u opts e = (evs', ?out)" ..
    from catchBlock_rejected [OF this] show ?thesis
    proof (elim disjE exE conjE)
      assume "x = e" and "isNavigationSignal u e"
      then have "isNavigationSignal u x" by simp
      then show ?thesis by (rule disjI1)
    next
      fix f assume "Option.bind opts handleServerErrorLog = Some f" and "f e = Inl x"
      then have "\<exists>f e. Option.bind opts handleServerErrorLog = Some f \<and> f e = Inl x"
        by (intro exI [of _ f] exI [of _ e] conjI)
      then show ?thesis by (rule disjI2 [OF disjI1])
    next
      fix g assume "Option.bind opts handleReturnedServerError = Some g" and "g e = Inl x"
      then have "\<exists>g e. Option.bind opts handleReturnedServerError = Some g \<and> g e = Inl x"
        by (intro exI [of _ g] exI [of _ e] conjI)
      then show ?thesis by (rule disjI2 [OF disjI2])
    qed
  next
    case (Inr r)
    with Pair have "tryBlock opts safeParse serverCode clientInput = (evs0, Inr r)" by simp
    from safeAction_return [OF this, of u] assms have False by simp
    then show ?thesis ..
  qed
qed

theorem rejection_is_signal_or_hook_failure_witness:
  "safeAction
     \<lparr>DEFAULT_SERVER_ERROR = ''Something went wrong'', isError = (\<lambda>e. e \<noteq> ''a string''),
      isNextNotFoundError = (\<lambda>e. e = ''NEXT_NOT_FOUND''),
      isNextRedirectError = (\<lambda>e. e = ''NEXT_REDIRECT'')\<rparr>
     (Some \<lparr>buildContext = None, handleReturnedServerError = Some (\<lambda>e. Inr \<lparr>data = None, validationError = None, serverError = Some (''Failed: '' @ e), fetchError = None\<rparr>),
        handleServerErrorLog = Some (\<lambda>e. Inr ())\<rparr> :: (string, string, nat) createOpts option)
     (\<lambda>raw :: string. Inr (SafeParseSuccess (length raw)) :: string + (string, nat) SafeParseReturnType)
     (\<lambda>(p :: nat) (ctx :: string executionContext). Inl ''NEXT_REDIRECT'' :: string + nat option) ''abc''
   = ([ServerCodeCalled 3 EmptyObject], Rejected ''NEXT_REDIRECT'') \<and>
   isNavigationSignal
     \<lparr>DEFAULT_SERVER_ERROR = ''Something went wrong'', isError = (\<lambda>e. e \<noteq> ''a string''),
      isNextNotFoundError = (\<lambda>e. e = ''NEXT_NOT_FOUND''),
      isNextRedirectError = (\<lambda>e. e = ''NEXT_REDIRECT'')\<rparr> ''NEXT_REDIRECT''"
proof -
  have run: "safeAction
     \<lparr>DEFAULT_SERVER_ERROR = ''Something went wrong'', isError = (\<lambda>e. e \<noteq> ''a string''),
      isNextNotFoundError = (\<lambda>e. e = ''NEXT_NOT_FOUND''),
      isNextRedirectError = (\<lambda>e. e = ''NEXT_REDIRECT'')\<rparr>
     (Some \<lparr>buildContext = None, handleReturnedServerError = Some (\<lambda>e. Inr \<lparr>data = None, validationError = None, serverError = Some (''Failed: '' @ e), fetchError = None\<rparr>),
        handleServerErrorLog = Some (\<lambda>e. Inr ())\<rparr> :: (string, string, nat) createOpts option)
     (\<lambda>raw :: string. Inr (SafeParseSuccess (length raw)) :: string + (string, nat) SafeParseReturnType)
     (\<lambda>(p :: nat) (ctx :: string executionContext). Inl ''NEXT_REDIRECT'' :: string + nat option) ''abc''
   = ([ServerCodeCalled 3 EmptyObject], Rejected ''NEXT_REDIRECT'')"
    by (simp add: safeAction_def tryBlock_def getContext_def catchBlock_def client_handleServerErrorLog_def client_handleReturnedServerError_def emptyResponse_def isNavigationSignal_def)
  from rejection_is_signal_or_hook_failure [OF run] run
  show ?thesis by simp
qed

subsection \<open>The shape of a result\<close>

text \<open>
  The result of a configured \<^verbatim>\<open>handleReturnedServerError\<close> is returned as it is
  (\<^verbatim>\<open>return await handleReturnedServerError(e)\<close>), and its declared type asks for a string
  \<^verbatim>\<open>serverError\<close> only. Below the handler throws an \<^verbatim>\<open>Error\<close>; a mapper that resolves to
  \<^verbatim>\<open>{serverError: "x", data: 5}\<close> gives a result with two variants populated, and one that
  resolves to \<^verbatim>\<open>{serverError: "x", fetchError: "y"}\<close> gives a result with \<^verbatim>\<open>fetchError\<close>.
\<close>

theorem mapper_object_returned_as_it_is:
  "safeAction
     \<lparr>DEFAULT_SERVER_ERROR = ''Something went wrong'', isError = (\<lambda>e. e \<noteq> ''a string''),
      isNextNotFoundError = (\<lambda>e. e = ''NEXT_NOT_FOUND''),
      isNextRedirectError = (\<lambda>e. e = ''NEXT_REDIRECT'')\<rparr>
     (Some \<lparr>buildContext = None, handleReturnedServerError = Some (\<lambda>e. Inr \<lparr>data = Some 5, validationError = None, serverError = Some ''x'', fetchError = None\<rparr>),
        handleServerErrorLog = None\<rparr> :: (string, string, nat) createOpts option)
     (\<lambda>raw :: string. Inr (SafeParseSuccess (length raw)) :: string + (string, nat) SafeParseReturnType)
     (\<lambda>(p :: nat) (ctx :: string executionContext). Inl ''db down'' :: string + nat option) ''abc''
   = ([ServerCodeCalled 3 EmptyObject, HandleServerErrorLogCalled ''db down'',
       ConsoleErrorMessage ''db down'', HandleReturnedServerErrorCalled ''db down''],
      Fulfilled \<lparr>data = Some 5, validationError = None, serverError = Some ''x'',
                 fetchError = None\<rparr>) \<and>
   populated (\<lparr>data = Some 5, validationError = None, serverError = Some ''x'',
               fetchError = None\<rparr> :: (nat, string) HookResponse) = 2 \<and>
   safeAction
     \<lparr>DEFAULT_SERVER_ERROR = ''Something went wrong'', isError = (\<lambda>e. e \<noteq> ''a string''),
      isNextNotFoundError = (\<lambda>e. e = ''NEXT_NOT_FOUND''),
      isNextRedirectError = (\<lambda>e. e = ''NEXT_REDIRECT'')\<rparr>
     (Some \<lparr>buildContext = None, handleReturnedServerError = Some (\<lambda>e. Inr \<lparr>data = None, validationError = None, serverError = Some ''x'', fetchError = Some ''y''\<rparr>),
        handleServerErrorLog = None\<rparr> :: (string, string, nat) createOpts option)
     (\<lambda>raw :: string. Inr (SafeParseSuccess (length raw)) :: string + (string, nat) SafeParseReturnType)
     (\<lambda>(p :: nat) (ctx :: string executionContext). Inl ''db down'' :: string + nat option) ''abc''
   = ([ServerCodeCalled 3 EmptyObject, HandleServerErrorLogCalled ''db down'',
       ConsoleErrorMessage ''db down'', HandleReturnedServerErrorCalled ''db down''],
      Fulfilled \<lparr>data = None, validationError = None, serverError = Some ''x'',
                 fetchError = Some ''y''\<rparr>)"
  by (simp add: safeAction_def tryBlock_def getContext_def catchBlock_def client_handleServerErrorLog_def client_handleReturnedServerError_def emptyResponse_def isNavigationSignal_def populated_def)

text \<open>
  Claim C8, amended. A result that the built action makes itself (for a validation failure,
  for a handler that returned, for a thrown value that is not an \<^verbatim>\<open>Error\<close>, and with the default
  message) has at most one of the four variants populated, and never \<^verbatim>\<open>fetchError\<close>. The only
  other result is the object that a configured \<^verbatim>\<open>handleReturnedServerError\<close> resolved to for
  the value thrown in the \<^verbatim>\<open>try\<close> block, passed on with whatever properties it has.
\<close>

theorem result_has_at_most_one_variant:
  assumes "safeAction u opts safeParse serverCode clientInput = (evs, Fulfilled r)"
    (is "_ = (_, ?out)")
  shows "(populated r \<le> 1 \<and> fetchError r = None) \<or>
         (\<exists>g e evs0. tryBlock opts safeParse serverCode clientInput = (evs0, Inl e) \<and>
            Option.bind opts handleReturnedServerError = Some g \<and> g e = Inr r)"
proof (cases "tryBlock opts safeParse serverCode clientInput")
  case (Pair evs0 out)
  show ?thesis
  proof (cases out)
    case (Inl e)
    with Pair have thrown: "tryBlock opts safeParse serverCode clientInput = (evs0, Inl e)"
      by simp
    from safeAction_throw_dest [OF this assms] obtain evs'
      where c: "catchBlock u opts e = (evs', ?out) \<and> evs = evs0 @ evs'" ..
    from c have "catchBlock u opts e = (evs', ?out)" ..
    from catchBlock_result [OF this] show ?thesis
    proof (elim disjE exE conjE)
      assume "populated r = 1" and "fetchError r = None"
      then have "populated r \<le> 1 \<and> fetchError r = None" by simp
      then show ?thesis by (rule disjI1)
    next
      fix g assume "Option.bind opts handleReturnedServerError = Some g" and "g e = Inr r"
      with thrown
      have "\<exists>g e evs0. tryBlock opts safeParse serverCode clientInput = (evs0, Inl e) \<and>
              Option.bind opts handleReturnedServerError = Some g \<and> g e = Inr r"
        by (intro exI [of _ g] exI [of _ e] exI [of _ evs0] conjI)
      then show ?thesis by (rule disjI2)
    qed
  next
    case (Inr r')
    with Pair have returned: "tryBlock opts safeParse serverCode clientInput = (evs0, Inr r')"
      by simp
    from safeAction_return [OF this, of u] assms have "r' = r" by simp
    with tryBlock_result [OF returned] have "populated r \<le> 1 \<and> fetchError r = None" by simp
    then show ?thesis by (rule disjI1)
  qed
qed

theorem result_has_at_most_one_variant_witness:
  "safeAction
     \<lparr>DEFAULT_SERVER_ERROR = ''Something went wrong'', isError = (\<lambda>e. e \<noteq> ''a string''),
      isNextNotFoundError = (\<lambda>e. e = ''NEXT_NOT_FOUND''),
      isNextRedirectError = (\<lambda>e. e = ''NEXT_REDIRECT'')\<rparr>
     (None :: (string, string, nat) createOpts option)
     (\<lambda>raw :: string. Inr (SafeParseSuccess (length raw)) :: string + (string, nat) SafeParseReturnType)
     (\<lambda>(p :: nat) (ctx :: string executionContext). Inl ''db down'' :: string + nat option) ''abc''
   = ([ServerCodeCalled 3 EmptyObject, HandleServerErrorLogCalled ''db down'',
       ConsoleErrorMessage ''db down'', HandleReturnedServerErrorCalled ''db down''],
      Fulfilled \<lparr>data = None, validationError = None,
              serverError = Some ''Something went wrong'', fetchError = None\<rparr>) \<and>
   populated (\<lparr>data = None, validationError = None,
              serverError = Some ''Something went wrong'', fetchError = None\<rparr> :: (nat, string) HookResponse) \<le> 1"
proof -
  have run: "safeAction
     \<lparr>DEFAULT_SERVER_ERROR = ''Something went wrong'', isError = (\<lambda>e. e \<noteq> ''a string''),
      isNextNotFoundError = (\<lambda>e. e = ''NEXT_NOT_FOUND''),
      isNextRedirectError = (\<lambda>e. e = ''NEXT_REDIRECT'')\<rparr>
     (None :: (string, string, nat) createOpts option)
     (\<lambda>raw :: string. Inr (SafeParseSuccess (length raw)) :: string + (string, nat) SafeParseReturnType)
     (\<lambda>(p :: nat) (ctx :: string executionContext). Inl ''db down'' :: string + nat option) ''abc''
   = ([ServerCodeCalled 3 EmptyObject, HandleServerErrorLogCalled ''db down'',
       ConsoleErrorMessage ''db down'', HandleReturnedServerErrorCalled ''db down''],
      Fulfilled \<lparr>data = None, validationError = None,
              serverError = Some ''Something went wrong'', fetchError = None\<rparr>)"
    by (simp add: safeAction_def tryBlock_def getContext_def catchBlock_def client_handleServerErrorLog_def client_handleReturnedServerError_def emptyResponse_def isNavigationSignal_def)
  from result_has_at_most_one_variant [OF run] run
  show ?thesis by (simp add: tryBlock_def getContext_def)
qed

section \<open>Properties of the hooks\<close>

subsection \<open>The status\<close>

text \<open>
  Claim C7. The status depends on \<^verbatim>\<open>isExecuting\<close> and the response only, in this order of
  priority: \<^verbatim>\<open>executing\<close> whenever \<^verbatim>\<open>isExecuting\<close> holds, whatever the response; otherwise
  \<^verbatim>\<open>hasSucceded\<close> when \<^verbatim>\<open>data\<close> is defined; otherwise \<^verbatim>\<open>hasErrored\<close> when one of
  \<^verbatim>\<open>validationError\<close>, \<^verbatim>\<open>serverError\<close>, \<^verbatim>\<open>fetchError\<close> is defined; otherwise \<^verbatim>\<open>idle\<close>.
\<close>

theorem getActionStatus_priority:
  "(isExecuting \<longrightarrow> getActionStatus isExecuting resp = executing) \<and>
   (\<not> isExecuting \<and> data resp \<noteq> None \<longrightarrow> getActionStatus isExecuting resp = hasSucceded) \<and>
   (\<not> isExecuting \<and> data resp = None \<and>
      (validationError resp \<noteq> None \<or> serverError resp \<noteq> None \<or> fetchError resp \<noteq> None) \<longrightarrow>
      getActionStatus isExecuting resp = hasErrored) \<and>
   (\<not> isExecuting \<and> data resp = None \<and> validationError resp = None \<and>
      serverError resp = None \<and> fetchError resp = None \<longrightarrow>
      getActionStatus isExecuting resp = idle)"
  by (simp add: getActionStatus_def)

theorem getActionStatus_priority_witness:
  "getActionStatus True (\<lparr>data = Some 1, validationError = None, serverError = None, fetchError = None\<rparr> :: (nat, string) HookResponse) = executing \<and>
   getActionStatus False (\<lparr>data = Some 1, validationError = None, serverError = Some ''stale'', fetchError = None\<rparr> :: (nat, string) HookResponse) = hasSucceded \<and>
   getActionStatus False (\<lparr>data = None, validationError = None, serverError = Some ''x'', fetchError = None\<rparr> :: (nat, string) HookResponse) = hasErrored \<and>
   getActionStatus False (\<lparr>data = None, validationError = None, serverError = None, fetchError = Some ''network''\<rparr> :: (nat, string) HookResponse) = hasErrored \<and>
   getActionStatus False (\<lparr>data = None, validationError = None, serverError = None, fetchError = None\<rparr> :: (nat, string) HookResponse) = idle"
  using getActionStatus_priority [of True "(\<lparr>data = Some 1, validationError = None, serverError = None, fetchError = None\<rparr> :: (nat, string) HookResponse)"]
    getActionStatus_priority [of False "(\<lparr>data = Some 1, validationError = None, serverError = Some ''stale'', fetchError = None\<rparr> :: (nat, string) HookResponse)"]
    getActionStatus_priority [of False "(\<lparr>data = None, validationError = None, serverError = Some ''x'', fetchError = None\<rparr> :: (nat, string) HookResponse)"]
    getActionStatus_priority [of False "(\<lparr>data = None, validationError = None, serverError = None, fetchError = Some ''network''\<rparr> :: (nat, string) HookResponse)"]
    getActionStatus_priority [of False "(\<lparr>data = None, validationError = None, serverError = None, fetchError = None\<rparr> :: (nat, string) HookResponse)"]
  by simp

subsection \<open>When the callbacks are called, and which\<close>

lemma callbackEffect_cases:
  "callbackEffect s e a = [] \<or>
   (\<exists>f. s = Some f \<and> arg_status a = hasSucceded \<and>
      callbackEffect s e a =
        [OnSuccessCalled f (data (snd (arg_response a))) (arg_input a) (arg_reset a)]) \<or>
   (\<exists>g. e = Some g \<and> arg_status a = hasErrored \<and>
      callbackEffect s e a = [OnErrorCalled g (snd (arg_response a)) (arg_input a) (arg_reset a)])"
  by (auto simp: callbackEffect_def split: option.splits if_splits)

lemma callbackEffect_input: "c \<in> set (callbackEffect s e a) \<Longrightarrow> call_input c = arg_input a"
  by (auto simp: callbackEffect_def split: option.splits if_splits)

lemma useActionCallbacks_input:
  "c \<in> set (snd (useActionCallbacks prev a)) \<Longrightarrow> call_input c = arg_input a"
  by (auto simp: useActionCallbacks_def Let_def dest: callbackEffect_input
      split: option.splits if_splits)

text \<open>
  After a render with memory \<open>m\<close>, the refs are those of \<open>m\<close> and the remembered dependencies
  are those of the render; so render \<open>k\<close> of a sequence compares with render \<open>k - 1\<close>.
\<close>

lemma renders_Some_nth:
  "k < length as \<Longrightarrow>
   renders (Some m) as ! k =
     (if (if k = 0 then lastDeps m else depsOf (as ! (k - 1))) \<noteq> depsOf (as ! k)
      then callbackEffect (onSuccessRef m) (onErrorRef m) (as ! k) else [])"
proof (induction as arbitrary: m k)
  case Nil
  then show ?case by simp
next
  case (Cons a as)
  show ?case
  proof (cases k)
    case 0
    then show ?thesis by (simp add: useActionCallbacks_def)
  next
    case (Suc j)
    with Cons.prems have j: "j < length as" by simp
    have step: "renders (Some m) (a # as) ! k = renders (Some (m\<lparr>lastDeps := depsOf a\<rparr>)) as ! j"
      using Suc by (simp add: useActionCallbacks_def)
    show ?thesis
    proof (cases j)
      case 0
      with Cons.IH [OF j, of "m\<lparr>lastDeps := depsOf a\<rparr>"] step Suc show ?thesis by simp
    next
      case (Suc i)
      with Cons.IH [OF j, of "m\<lparr>lastDeps := depsOf a\<rparr>"] step \<open>k = Suc j\<close> show ?thesis by simp
    qed
  qed
qed

lemma renders_None_nth:
  assumes "k < length (a # as)"
  shows "renders None (a # as) ! k =
           (if k = 0 \<or> depsOf ((a # as) ! (k - 1)) \<noteq> depsOf ((a # as) ! k)
            then callbackEffect (Option.bind (arg_cb a) onSuccess) (Option.bind (arg_cb a) onError)
                   ((a # as) ! k)
            else [])"
proof (cases k)
  case 0
  then show ?thesis by (simp add: useActionCallbacks_def Let_def)
next
  case (Suc j)
  with assms have j: "j < length as" by simp
  have "renders None (a # as) ! k =
          renders (Some \<lparr>onSuccessRef = Option.bind (arg_cb a) onSuccess,
                         onErrorRef = Option.bind (arg_cb a) onError, lastDeps = depsOf a\<rparr>) as ! j"
    using Suc by (simp add: useActionCallbacks_def Let_def)
  with renders_Some_nth [OF j] Suc show ?thesis
    by (cases j) simp_all
qed

text \<open>
  The claim as it stands fails twice. First, the callback called is the one of the first
  render, not the latest: \<^verbatim>\<open>useRef\<close> takes its argument at the first render only and nothing
  assigns to the ref. Second, the effect depends on the response too, so it does not wait for
  a change of status. Below, the component is rendered with the callback \<^verbatim>\<open>first\<close>;
  \<^verbatim>\<open>execute\<close> is called twice; the first result \<^verbatim>\<open>{data: 7}\<close> arrives and the component renders
  with the callback \<^verbatim>\<open>latest\<close>; the second result \<^verbatim>\<open>{data: 8}\<close> arrives and it renders again.
  Both times the effect calls \<^verbatim>\<open>first\<close>, the second time with the status \<^verbatim>\<open>hasSucceded\<close> as
  it was.
\<close>

theorem first_callback_called_not_latest:
  "renders None
     [useAction_args (Some \<lparr>onSuccess = Some ''first'', onError = None\<rparr>) False (initialHookState :: (nat, string, string) hookState),
      useAction_args (Some \<lparr>onSuccess = Some ''latest'', onError = None\<rparr>) False
        (execute_then (\<lparr>data = Some 7, validationError = None, serverError = None, fetchError = None\<rparr> :: (nat, string) HookResponse) (execute ''in2'' (execute ''in'' (initialHookState :: (nat, string, string) hookState)))),
      useAction_args (Some \<lparr>onSuccess = Some ''latest'', onError = None\<rparr>) False
        (execute_then (\<lparr>data = Some 8, validationError = None, serverError = None, fetchError = None\<rparr> :: (nat, string) HookResponse)
           (execute_then (\<lparr>data = Some 7, validationError = None, serverError = None, fetchError = None\<rparr> :: (nat, string) HookResponse) (execute ''in2'' (execute ''in'' (initialHookState :: (nat, string, string) hookState)))))]
   = [[],
      [OnSuccessCalled ''first'' (Some 7) (Some ''in2'') 0],
      [OnSuccessCalled ''first'' (Some 8) (Some ''in2'') 0]]"
  by (simp add: renders.simps useActionCallbacks_def useAction_args_def useAction_def useOptimisticAction_def callbackEffect_def depsOf_def getActionStatus_def initialHookState_def execute_def execute_then_def execute_catch_def setInput_def setResponse_def useAction_reset_def useOptimisticAction_reset_def hookRun_def emptyResponse_def Let_def)

text \<open>
  Claim C9, amended. The callbacks are not called at every render: after the first render,
  the effect runs only after a render at which the status, the response object or \<^verbatim>\<open>reset\<close>
  differs from the previous render, whatever callbacks the render is passed. When it runs, it
  calls at most one callback, \<^verbatim>\<open>onSuccess\<close> if the status is \<^verbatim>\<open>hasSucceded\<close> and otherwise
  \<^verbatim>\<open>onError\<close> if the status is \<^verbatim>\<open>hasErrored\<close>, and the callback is the one passed at the first
  render of the component: a reference passed at a later render is never called.
\<close>

theorem callbacks_called_on_change_from_first_render:
  assumes "k < length (a # as)"
  shows "renders None (a # as) ! k =
           (if k = 0 \<or> depsOf ((a # as) ! (k - 1)) \<noteq> depsOf ((a # as) ! k)
            then callbackEffect (Option.bind (arg_cb a) onSuccess) (Option.bind (arg_cb a) onError)
                   ((a # as) ! k)
            else []) \<and>
         (renders None (a # as) ! k = [] \<or>
          (\<exists>f. Option.bind (arg_cb a) onSuccess = Some f \<and>
             arg_status ((a # as) ! k) = hasSucceded \<and>
             renders None (a # as) ! k =
               [OnSuccessCalled f (data (snd (arg_response ((a # as) ! k))))
                  (arg_input ((a # as) ! k)) (arg_reset ((a # as) ! k))]) \<or>
          (\<exists>g. Option.bind (arg_cb a) onError = Some g \<and>
             arg_status ((a # as) ! k) = hasErrored \<and>
             renders None (a # as) ! k =
               [OnErrorCalled g (snd (arg_response ((a # as) ! k)))
                  (arg_input ((a # as) ! k)) (arg_reset ((a # as) ! k))]))"
proof -
  let ?s = "Option.bind (arg_cb a) onSuccess" and ?e = "Option.bind (arg_cb a) onError"
  have eq: "renders None (a # as) ! k =
           (if k = 0 \<or> depsOf ((a # as) ! (k - 1)) \<noteq> depsOf ((a # as) ! k)
            then callbackEffect ?s ?e ((a # as) ! k) else [])"
    by (rule renders_None_nth [OF assms])
  show ?thesis
  proof (cases "k = 0 \<or> depsOf ((a # as) ! (k - 1)) \<noteq> depsOf ((a # as) ! k)")
    case True
    with eq have "renders None (a # as) ! k = callbackEffect ?s ?e ((a # as) ! k)" by simp
    with callbackEffect_cases [of ?s ?e "(a # as) ! k"] eq show ?thesis by simp
  next
    case False
    with eq show ?thesis by simp
  qed
qed

text \<open>
  Three renders: the error callback \<^verbatim>\<open>first\<close> is passed, the action fails and another callback
  is passed, and the component renders again with nothing changed but the callback.
\<close>

theorem callbacks_called_on_change_from_first_render_witness:
  "renders None
     [useAction_args (Some \<lparr>onSuccess = None, onError = Some ''first''\<rparr>) False (initialHookState :: (nat, string, string) hookState),
      useAction_args (Some \<lparr>onSuccess = None, onError = Some ''latest''\<rparr>) False
        (execute_then (\<lparr>data = None, validationError = None, serverError = Some ''x'', fetchError = None\<rparr> :: (nat, string) HookResponse) (execute ''in'' (initialHookState :: (nat, string, string) hookState))),
      useAction_args (Some \<lparr>onSuccess = None, onError = Some ''third''\<rparr>) False
        (execute_then (\<lparr>data = None, validationError = None, serverError = Some ''x'', fetchError = None\<rparr> :: (nat, string) HookResponse) (execute ''in'' (initialHookState :: (nat, string, string) hookState)))] ! 1
   = [OnErrorCalled ''first'' (\<lparr>data = None, validationError = None, serverError = Some ''x'', fetchError = None\<rparr> :: (nat, string) HookResponse) (Some ''in'') 0] \<and>
   renders None
     [useAction_args (Some \<lparr>onSuccess = None, onError = Some ''first''\<rparr>) False (initialHookState :: (nat, string, string) hookState),
      useAction_args (Some \<lparr>onSuccess = None, onError = Some ''latest''\<rparr>) False
        (execute_then (\<lparr>data = None, validationError = None, serverError = Some ''x'', fetchError = None\<rparr> :: (nat, string) HookResponse) (execute ''in'' (initialHookState :: (nat, string, string) hookState))),
      useAction_args (Some \<lparr>onSuccess = None, onError = Some ''third''\<rparr>) False
        (execute_then (\<lparr>data = None, validationError = None, serverError = Some ''x'', fetchError = None\<rparr> :: (nat, string) HookResponse) (execute ''in'' (initialHookState :: (nat, string, string) hookState)))] ! 2
   = []"
  using callbacks_called_on_change_from_first_render
    [where k = 1 and a = "useAction_args (Some \<lparr>onSuccess = None, onError = Some ''first''\<rparr>) False (initialHookState :: (nat, string, string) hookState)"
       and as = "[useAction_args (Some \<lparr>onSuccess = None, onError = Some ''latest''\<rparr>) False
        (execute_then (\<lparr>data = None, validationError = None, serverError = Some ''x'', fetchError = None\<rparr> :: (nat, string) HookResponse) (execute ''in'' (initialHookState :: (nat, string, string) hookState))),
      useAction_args (Some \<lparr>onSuccess = None, onError = Some ''third''\<rparr>) False
        (execute_then (\<lparr>data = None, validationError = None, serverError = Some ''x'', fetchError = None\<rparr> :: (nat, string) HookResponse) (execute ''in'' (initialHookState :: (nat, string, string) hookState)))]"]
    callbacks_called_on_change_from_first_render
    [where k = 2 and a = "useAction_args (Some \<lparr>onSuccess = None, onError = Some ''first''\<rparr>) False (initialHookState :: (nat, string, string) hookState)"
       and as = "[useAction_args (Some \<lparr>onSuccess = None, onError = Some ''latest''\<rparr>) False
        (execute_then (\<lparr>data = None, validationError = None, serverError = Some ''x'', fetchError = None\<rparr> :: (nat, string) HookResponse) (execute ''in'' (initialHookState :: (nat, string, string) hookState))),
      useAction_args (Some \<lparr>onSuccess = None, onError = Some ''third''\<rparr>) False
        (execute_then (\<lparr>data = None, validationError = None, serverError = Some ''x'', fetchError = None\<rparr> :: (nat, string) HookResponse) (execute ''in'' (initialHookState :: (nat, string, string) hookState)))]"]
  by (simp add: renders.simps useActionCallbacks_def useAction_args_def useAction_def useOptimisticAction_def callbackEffect_def depsOf_def getActionStatus_def initialHookState_def execute_def execute_then_def execute_catch_def setInput_def setResponse_def useAction_reset_def useOptimisticAction_reset_def hookRun_def emptyResponse_def Let_def)

subsection \<open>What \<^verbatim>\<open>reset\<close> changes\<close>

lemma input_hookStep: "\<not> isExecute op \<Longrightarrow> input (hookStep u st op) = input st"
  by (cases op)
     (simp_all add: execute_then_def execute_catch_def useAction_reset_def setResponse_def)

lemma input_hookRun:
  "\<forall>op \<in> set ops. \<not> isExecute op \<Longrightarrow> input (hookRun u st ops) = input st"
  unfolding hookRun_def
  by (induction ops arbitrary: st) (simp_all add: input_hookStep)

lemma input_after_Execute:
  assumes "\<forall>op \<in> set ops. \<not> isExecute op"
  shows "input (hookRun u st (Execute i # ops)) = Some i"
proof -
  have "hookRun u st (Execute i # ops) = hookRun u (execute i st) ops"
    by (simp add: hookRun_def)
  with input_hookRun [OF assms] show ?thesis by (simp add: execute_def setInput_def)
qed

text \<open>
  Claim C10. In both hooks \<^verbatim>\<open>reset\<close> changes the \<^verbatim>\<open>response\<close> cell only, to a new empty object,
  and leaves the stored input as it is. So after \<^verbatim>\<open>execute(i)\<close>, whatever follows short of
  another \<^verbatim>\<open>execute\<close> (results arriving, rejections, calls of \<^verbatim>\<open>reset\<close>), a callback that a
  later render calls is given the input \<open>i\<close>.
\<close>

theorem reset_changes_only_response:
  "useAction_reset st = st\<lparr>response := (Suc (fst (response st)), emptyResponse)\<rparr> \<and>
   useOptimisticAction_reset st = st\<lparr>response := (Suc (fst (response st)), emptyResponse)\<rparr> \<and>
   input (useAction_reset st) = input st \<and>
   input (useOptimisticAction_reset st) = input st \<and>
   ((\<forall>op \<in> set ops. \<not> isExecute op) \<longrightarrow>
      (\<forall>c \<in> set (snd (useAction prev cb isExecuting (hookRun u st (Execute i # ops)))).
         call_input c = Some i) \<and>
      (\<forall>c \<in> set (snd (useOptimisticAction prev cb isExecuting (hookRun u st (Execute i # ops)))).
         call_input c = Some i))"
proof -
  have frame: "useAction_reset st = st\<lparr>response := (Suc (fst (response st)), emptyResponse)\<rparr>"
    "useOptimisticAction_reset st = st\<lparr>response := (Suc (fst (response st)), emptyResponse)\<rparr>"
    by (simp_all add: useAction_reset_def useOptimisticAction_reset_def setResponse_def)
  have kept: "input (useAction_reset st) = input st" "input (useOptimisticAction_reset st) = input st"
    by (simp_all add: frame)
  have calls: "(\<forall>c \<in> set (snd (useAction prev cb isExecuting (hookRun u st (Execute i # ops)))).
         call_input c = Some i) \<and>
      (\<forall>c \<in> set (snd (useOptimisticAction prev cb isExecuting (hookRun u st (Execute i # ops)))).
         call_input c = Some i)"
    if "\<forall>op \<in> set ops. \<not> isExecute op"
  proof -
    from input_after_Execute [OF that]
    have i: "input (hookRun u st (Execute i # ops)) = Some i" .
    have "call_input c = Some i"
      if "c \<in> set (snd (useAction prev cb isExecuting (hookRun u st (Execute i # ops))))" for c
      using useActionCallbacks_input [OF that [unfolded useAction_def]] i
      by (simp add: useAction_args_def)
    moreover have "call_input c = Some i"
      if "c \<in> set (snd (useOptimisticAction prev cb isExecuting (hookRun u st (Execute i # ops))))"
      for c
      using useActionCallbacks_input [OF that [unfolded useOptimisticAction_def Let_def]] i
      by simp
    ultimately show ?thesis by blast
  qed
  from frame kept calls show ?thesis by blast
qed

text \<open>
  \<^verbatim>\<open>execute("in")\<close>, then \<^verbatim>\<open>reset()\<close>, then the result of the call arrives: \<^verbatim>\<open>onSuccess\<close> is
  called with \<^verbatim>\<open>"in"\<close>.
\<close>

theorem reset_changes_only_response_witness:
  "input (useAction_reset (execute ''in'' (initialHookState :: (nat, string, string) hookState))) = Some ''in'' \<and>
   snd (useAction (Some \<lparr>onSuccessRef = Some ''f'', onErrorRef = None, lastDeps = (idle, 1, 0)\<rparr>)
          None False
          (hookRun
             \<lparr>DEFAULT_SERVER_ERROR = ''Something went wrong'', isError = (\<lambda>e. e \<noteq> ''a string''),
      isNextNotFoundError = (\<lambda>e. e = ''NEXT_NOT_FOUND''),
      isNextRedirectError = (\<lambda>e. e = ''NEXT_REDIRECT'')\<rparr>
             (initialHookState :: (nat, string, string) hookState)
             [Execute ''in'', Reset, Resolves (\<lparr>data = Some 7, validationError = None, serverError = None, fetchError = None\<rparr> :: (nat, string) HookResponse)]))
   = [OnSuccessCalled ''f'' (Some 7) (Some ''in'') 0] \<and>
   call_input (OnSuccessCalled ''f'' (Some 7) (Some ''in'') 0 :: (string, nat, string, string) callbackCall)
   = Some ''in''"
  using reset_changes_only_response
    [where st = "(initialHookState :: (nat, string, string) hookState)" and ops = "[Reset, Resolves (\<lparr>data = Some 7, validationError = None, serverError = None, fetchError = None\<rparr> :: (nat, string) HookResponse)]"
       and prev = "Some \<lparr>onSuccessRef = Some ''f'', onErrorRef = None, lastDeps = (idle, 1, 0)\<rparr>"
       and cb = None and isExecuting = False and i = "''in''"
       and u = "\<lparr>DEFAULT_SERVER_ERROR = ''Something went wrong'', isError = (\<lambda>e. e \<noteq> ''a string''),
      isNextNotFoundError = (\<lambda>e. e = ''NEXT_NOT_FOUND''),
      isNextRedirectError = (\<lambda>e. e = ''NEXT_REDIRECT'')\<rparr>"]
  by (simp add: renders.simps useActionCallbacks_def useAction_args_def useAction_def useOptimisticAction_def callbackEffect_def depsOf_def getActionStatus_def initialHookState_def execute_def execute_then_def execute_catch_def setInput_def setResponse_def useAction_reset_def useOptimisticAction_reset_def hookRun_def emptyResponse_def Let_def)

end
